theory Spec2Isabelle
  imports Complex_Main "HOL-Library.Multiset"
begin

section \<open>The chat store of aiaio (src/aiaio/db.py)\<close>

text \<open>
  The module keeps conversations, messages, attachments and settings profiles in one
  SQLite file. Each method of \<open>ChatDatabase\<close> opens a connection in a \<open>with\<close> block, runs
  its statements and leaves the block: on a normal exit the block commits, on an exception it
  rolls back. The embedding below keeps the tables as lists of rows in rowid order, passes the
  store explicitly and returns it updated, and makes every exception a value of \<open>error\<close>.

  What the environment supplies is a parameter of the operation that reads it:
  \<open>time.time()\<close> is \<open>current_time\<close>, the i-th call of \<open>uuid.uuid4()\<close> within one method is
  \<open>uuid4 i\<close>, and the value a column default \<open>strftime('%s.%f', 'now')\<close> yields is \<open>dflt\<close>.
  Timestamps are only stored, compared and ordered, never computed with, so a Python float is
  read as the real number it denotes.
\<close>

subsection \<open>Values and errors\<close>

datatype error =
    IntegrityError
  | OperationalError
  | KeyError string

text \<open>
  A cell of a timestamp column declared \<open>REAL DEFAULT (strftime('%s.%f', 'now'))\<close>: either the float
  the Python layer bound to it, or whatever the column default produced.
\<close>

datatype sqlval = SqlReal real | SqlText string

text \<open>
  One key of a Python dictionary: the key is absent, or it is bound to \<open>None\<close>, or to a value.
  The value types are those the schema declares for the column the key is written to.
\<close>

datatype 'a pyfield = NoKey | PyNone | Val 'a

text \<open>\<open>d.get(key, default)\<close>: the default only when the key is absent; \<open>None\<close> reads as SQL NULL.\<close>

fun dict_get :: "'a pyfield \<Rightarrow> 'a \<Rightarrow> 'a option" where
  "dict_get NoKey d = Some d"
| "dict_get PyNone d = None"
| "dict_get (Val v) d = Some v"

text \<open>\<open>d[key]\<close>: raises \<open>KeyError\<close> when the key is absent.\<close>

fun dict_item :: "string \<Rightarrow> 'a pyfield \<Rightarrow> error + 'a option" where
  "dict_item k NoKey = Inl (KeyError k)"
| "dict_item k PyNone = Inr None"
| "dict_item k (Val v) = Inr (Some v)"

subsection \<open>Rows of the four tables\<close>

record conversation =
  conversation_id :: string
  c_created_at :: sqlval
  last_updated :: sqlval
  summary :: "string option"

record message =
  message_id :: string
  m_conversation_id :: string
  role :: string
  content_type :: string
  content :: string
  m_created_at :: real

record attachment =
  attachment_id :: string
  a_message_id :: string
  file_name :: "string option"
  file_path :: "string option"
  file_type :: "string option"
  file_size :: "int option"
  a_created_at :: real

text \<open>
  A settings row. \<open>name\<close> and \<open>"default"\<close> are declared \<open>NOT NULL\<close>; the other columns may hold
  NULL (\<open>None\<close>).
\<close>

record setting =
  s_id :: int
  s_name :: string
  s_default :: bool
  temperature :: "real option"
  max_tokens :: "int option"
  top_p :: "real option"
  host :: "string option"
  model_name :: "string option"
  api_key :: "string option"
  updated_at :: sqlval

text \<open>
  The file: the table names listed in \<open>sqlite_master\<close>, the column names of \<open>conversations\<close>
  (what \<open>PRAGMA table_info(conversations)\<close> lists), the rows of each table, and the counter that
  \<open>AUTOINCREMENT\<close> keeps for \<open>settings\<close> in \<open>sqlite_sequence\<close>.
\<close>

record db =
  tables :: "string list"
  conversations_columns :: "string list"
  conversations :: "conversation list"
  messages :: "message list"
  attachments :: "attachment list"
  settings :: "setting list"
  settings_seq :: int

subsection \<open>The connection as a context manager\<close>

text \<open>
  \<open>with sqlite3.connect(path) as conn: body\<close>. The statements of the body that insert, update or
  delete run in one implicit transaction; leaving the block by an exception rolls it back, leaving
  it normally commits it.
\<close>

definition with_conn :: "db \<Rightarrow> (db \<Rightarrow> error + ('a \<times> db)) \<Rightarrow> (error + 'a) \<times> db" where
  "with_conn conn body =
     (case body conn of
        Inl e \<Rightarrow> (Inl e, conn)
      | Inr (x, conn') \<Rightarrow> (Inr x, conn'))"

subsection \<open>Settings profiles\<close>

text \<open>
  The dictionary \<open>settings\<close> that \<open>save_settings\<close> and \<open>add_settings\<close> receive; only these keys
  are read.
\<close>

record settings_dict =
  d_id :: "int pyfield"
  d_name :: "string pyfield"
  d_temperature :: "real pyfield"
  d_max_tokens :: "int pyfield"
  d_top_p :: "real pyfield"
  d_host :: "string pyfield"
  d_model_name :: "string pyfield"
  d_api_key :: "string pyfield"

text \<open>
  The rowid an \<open>INTEGER PRIMARY KEY AUTOINCREMENT\<close> column gives a new row: one more than the
  largest rowid the table has ever held.
\<close>

definition next_rowid :: "db \<Rightarrow> int" where
  "next_rowid conn = foldr max (map s_id (settings conn)) (settings_seq conn) + 1"

text \<open>
  \<open>INSERT INTO settings (name, [default,] temperature, max_tokens, top_p, host, model_name,
  api_key[, updated_at]) VALUES (...)\<close>: the row gets the next rowid; a NULL name violates
  \<open>NOT NULL\<close>. The result carries \<open>cursor.lastrowid\<close>.
\<close>

definition insert_setting ::
  "db \<Rightarrow> string option \<Rightarrow> bool \<Rightarrow> real option \<Rightarrow> int option \<Rightarrow> real option \<Rightarrow>
   string option \<Rightarrow> string option \<Rightarrow> string option \<Rightarrow> sqlval \<Rightarrow> error + (int \<times> db)" where
  "insert_setting conn nm dfl temp mt tp h mn ak upd =
     (case nm of
        None \<Rightarrow> Inl IntegrityError
      | Some n \<Rightarrow>
          let rowid = next_rowid conn in
          Inr (rowid,
               conn\<lparr>settings := settings conn @
                      [\<lparr>s_id = rowid, s_name = n, s_default = dfl, temperature = temp,
                        max_tokens = mt, top_p = tp, host = h, model_name = mn, api_key = ak,
                        updated_at = upd\<rparr>],
                    settings_seq := rowid\<rparr>))"

text \<open>
  \<open>UPDATE settings SET name = ?, temperature = ?, ..., updated_at = ? WHERE id = ?\<close>: a NULL name
  violates \<open>NOT NULL\<close> when a row matches. The result carries \<open>cursor.rowcount\<close>.
\<close>

definition update_setting ::
  "db \<Rightarrow> int \<Rightarrow> string option \<Rightarrow> real option \<Rightarrow> int option \<Rightarrow> real option \<Rightarrow>
   string option \<Rightarrow> string option \<Rightarrow> string option \<Rightarrow> sqlval \<Rightarrow> error + (nat \<times> db)" where
  "update_setting conn i nm temp mt tp h mn ak upd =
     (let hits = filter (\<lambda>s. s_id s = i) (settings conn) in
      case nm of
        None \<Rightarrow> if hits = [] then Inr (0, conn) else Inl IntegrityError
      | Some n \<Rightarrow>
          Inr (length hits,
               conn\<lparr>settings :=
                      map (\<lambda>s. if s_id s = i
                                then s\<lparr>s_name := n, temperature := temp, max_tokens := mt,
                                       top_p := tp, host := h, model_name := mn, api_key := ak,
                                       updated_at := upd\<rparr>
                                else s)
                          (settings conn)\<rparr>))"

text \<open>
  \<open>save_settings\<close>: an insert when the dictionary has no \<open>id\<close> or its \<open>id\<close> is \<open>None\<close>, an
  update of the row \<open>settings["id"]\<close> otherwise. The default name differs between the two.
\<close>

definition save_settings :: "db \<Rightarrow> real \<Rightarrow> settings_dict \<Rightarrow> (error + bool) \<times> db" where
  "save_settings conn0 current_time st =
     with_conn conn0 (\<lambda>conn.
       let inserted =
             (case insert_setting conn
                     (dict_get (d_name st) ''New Config'')
                     False
                     (dict_get (d_temperature st) 1.0)
                     (dict_get (d_max_tokens st) 4096)
                     (dict_get (d_top_p st) 0.95)
                     (dict_get (d_host st) ''http://localhost:8000/v1'')
                     (dict_get (d_model_name st) ''meta-llama/Llama-3.2-1B-Instruct'')
                     (dict_get (d_api_key st) '''')
                     (SqlReal current_time) of
                Inl e \<Rightarrow> Inl e
              | Inr (rowid, conn') \<Rightarrow> Inr (True, conn'))
       in case d_id st of
            NoKey \<Rightarrow> inserted
          | PyNone \<Rightarrow> inserted
          | Val i \<Rightarrow>
              (case update_setting conn i
                      (dict_get (d_name st) ''Default Config'')
                      (dict_get (d_temperature st) 1.0)
                      (dict_get (d_max_tokens st) 4096)
                      (dict_get (d_top_p st) 0.95)
                      (dict_get (d_host st) ''http://localhost:8000/v1'')
                      (dict_get (d_model_name st) ''meta-llama/Llama-3.2-1B-Instruct'')
                      (dict_get (d_api_key st) '''')
                      (SqlReal current_time) of
                 Inl e \<Rightarrow> Inl e
               | Inr (rowcount, conn') \<Rightarrow> Inr (rowcount > 0, conn')))"

text \<open>\<open>SELECT * FROM settings WHERE "default" = true\<close>, first row; \<open>{}\<close> is \<open>None\<close>.\<close>

definition get_settings :: "db \<Rightarrow> setting option" where
  "get_settings conn = find s_default (settings conn)"

definition add_settings :: "db \<Rightarrow> sqlval \<Rightarrow> settings_dict \<Rightarrow> (error + int) \<times> db" where
  "add_settings conn0 dflt st =
     with_conn conn0 (\<lambda>conn.
       insert_setting conn
         (dict_get (d_name st) ''New Config'')
         False
         (dict_get (d_temperature st) 1.0)
         (dict_get (d_max_tokens st) 4096)
         (dict_get (d_top_p st) 0.95)
         (dict_get (d_host st) ''http://localhost:8000/v1'')
         (dict_get (d_model_name st) ''meta-llama/Llama-3.2-1B-Instruct'')
         (dict_get (d_api_key st) '''')
         dflt)"

text \<open>
  Two updates in one block: every row flagged default loses the flag, then the rows whose id is
  \<open>settings_id\<close> get it. The result is \<open>cursor.rowcount > 0\<close> of the second update.
\<close>

definition clear_default :: "db \<Rightarrow> db" where
  "clear_default conn =
     conn\<lparr>settings := map (\<lambda>s. if s_default s then s\<lparr>s_default := False\<rparr> else s) (settings conn)\<rparr>"

definition mark_default :: "db \<Rightarrow> int \<Rightarrow> nat \<times> db" where
  "mark_default conn settings_id =
     (length (filter (\<lambda>s. s_id s = settings_id) (settings conn)),
      conn\<lparr>settings :=
             map (\<lambda>s. if s_id s = settings_id then s\<lparr>s_default := True\<rparr> else s) (settings conn)\<rparr>)"

definition set_default_settings :: "db \<Rightarrow> int \<Rightarrow> (error + bool) \<times> db" where
  "set_default_settings conn0 settings_id =
     with_conn conn0 (\<lambda>conn.
       let conn1 = clear_default conn;
           (rowcount, conn2) = mark_default conn1 settings_id
       in Inr (rowcount > 0, conn2))"


subsection \<open>Schema creation and migration\<close>

text \<open>
  The script \<open>_DB\<close>: four \<open>CREATE TABLE\<close> statements (none says \<open>IF NOT EXISTS\<close>) and the insert
  of the profile named \<open>default\<close>. \<open>CREATE TABLE\<close> fails when \<open>sqlite_master\<close> already lists the
  name; a created table is empty.
\<close>

datatype statement = CreateTable string | InsertDefaultSettings

definition DB_script :: "statement list" where
  "DB_script =
     [CreateTable ''conversations'', CreateTable ''messages'', CreateTable ''attachments'',
      CreateTable ''settings'', InsertDefaultSettings]"

definition create_table :: "db \<Rightarrow> string \<Rightarrow> error + db" where
  "create_table conn t =
     (if t \<in> set (tables conn) then Inl OperationalError
      else
        let conn' = conn\<lparr>tables := tables conn @ [t]\<rparr> in
        Inr (if t = ''conversations'' then
               conn'\<lparr>conversations_columns :=
                        [''conversation_id'', ''created_at'', ''last_updated'', ''summary''],
                      conversations := []\<rparr>
             else if t = ''messages'' then conn'\<lparr>messages := []\<rparr>
             else if t = ''attachments'' then conn'\<lparr>attachments := []\<rparr>
             else if t = ''settings'' then conn'\<lparr>settings := [], settings_seq := 0\<rparr>
             else conn'))"

fun exec_statement :: "sqlval \<Rightarrow> db \<Rightarrow> statement \<Rightarrow> error + db" where
  "exec_statement dflt conn (CreateTable t) = create_table conn t"
| "exec_statement dflt conn InsertDefaultSettings =
     (if ''settings'' \<notin> set (tables conn) then Inl OperationalError
      else
        case insert_setting conn (Some ''default'') True (Some 1.0) (Some 4096) (Some 0.95)
               (Some ''http://localhost:8000/v1'') (Some ''meta-llama/Llama-3.2-1B-Instruct'')
               (Some '''') dflt of
          Inl e \<Rightarrow> Inl e
        | Inr (rowid, conn') \<Rightarrow> Inr conn')"

text \<open>
  \<open>conn.executescript(script)\<close> runs the statements one after the other outside any transaction
  of the \<open>with\<close> block: what ran before a failing statement stays in the file.
\<close>

fun executescript :: "sqlval \<Rightarrow> db \<Rightarrow> statement list \<Rightarrow> error option \<times> db" where
  "executescript dflt conn [] = (None, conn)"
| "executescript dflt conn (st # script) =
     (case exec_statement dflt conn st of
        Inl e \<Rightarrow> (Some e, conn)
      | Inr conn' \<Rightarrow> executescript dflt conn' script)"

text \<open>The file \<open>sqlite3.connect\<close> creates when none exists at the path.\<close>

definition empty_db :: db where
  "empty_db =
     \<lparr>tables = [], conversations_columns = [], conversations = [], messages = [],
      attachments = [], settings = [], settings_seq = 0\<rparr>"

text \<open>
  \<open>_init_db\<close>. The argument is the file at \<open>db_path\<close>, \<open>None\<close> when \<open>os.path.exists\<close> is false.
  The result is the exception raised, if any, and the file afterwards.
\<close>

definition init_db :: "db option \<Rightarrow> sqlval \<Rightarrow> error option \<times> db" where
  "init_db file dflt =
     (case file of
        None \<Rightarrow> executescript dflt empty_db DB_script
      | Some conn \<Rightarrow>
          let found = filter (\<lambda>name. name \<in> set [''conversations'', ''messages'',
                                                  ''attachments'', ''settings''])
                             (tables conn)
          in if length found < 4 then executescript dflt conn DB_script
             else if ''summary'' \<notin> set (conversations_columns conn)
             then (None, conn\<lparr>conversations_columns := conversations_columns conn @ [''summary'']\<rparr>)
             else (None, conn))"

subsection \<open>Conversations\<close>

definition create_conversation :: "db \<Rightarrow> (nat \<Rightarrow> string) \<Rightarrow> sqlval \<Rightarrow> (error + string) \<times> db" where
  "create_conversation conn0 uuid4 dflt =
     (let cid = uuid4 0 in
      with_conn conn0 (\<lambda>conn.
        if cid \<in> conversation_id ` set (conversations conn) then Inl IntegrityError
        else Inr (cid,
                  conn\<lparr>conversations := conversations conn @
                         [\<lparr>conversation_id = cid, c_created_at = dflt, last_updated = dflt,
                           summary = None\<rparr>]\<rparr>)))"

text \<open>
  The three deletes of \<open>delete_conversation\<close>, in the order of the source. Foreign keys are
  declared but SQLite does not enforce them unless asked to, and the module never asks.
\<close>

definition delete_attachments_of :: "db \<Rightarrow> string \<Rightarrow> db" where
  "delete_attachments_of conn cid =
     conn\<lparr>attachments :=
            filter (\<lambda>a. a_message_id a \<notin>
                          set (map message_id (filter (\<lambda>m. m_conversation_id m = cid) (messages conn))))
                   (attachments conn)\<rparr>"

definition delete_messages_of :: "db \<Rightarrow> string \<Rightarrow> db" where
  "delete_messages_of conn cid =
     conn\<lparr>messages := filter (\<lambda>m. m_conversation_id m \<noteq> cid) (messages conn)\<rparr>"

definition delete_conversation_row :: "db \<Rightarrow> string \<Rightarrow> db" where
  "delete_conversation_row conn cid =
     conn\<lparr>conversations := filter (\<lambda>c. conversation_id c \<noteq> cid) (conversations conn)\<rparr>"

definition delete_conversation :: "db \<Rightarrow> string \<Rightarrow> (error + unit) \<times> db" where
  "delete_conversation conn0 cid =
     with_conn conn0 (\<lambda>conn.
       let conn1 = delete_attachments_of conn cid;
           conn2 = delete_messages_of conn1 cid;
           conn3 = delete_conversation_row conn2 cid
       in Inr ((), conn3))"

definition update_conversation_summary :: "db \<Rightarrow> string \<Rightarrow> string \<Rightarrow> (error + unit) \<times> db" where
  "update_conversation_summary conn0 cid txt =
     with_conn conn0 (\<lambda>conn.
       Inr ((), conn\<lparr>conversations :=
                       map (\<lambda>c. if conversation_id c = cid then c\<lparr>summary := Some txt\<rparr> else c)
                           (conversations conn)\<rparr>))"

subsection \<open>Messages and attachments\<close>

text \<open>An attachment descriptor: the four keys \<open>add_message\<close> reads with \<open>att[key]\<close>.\<close>

record attachment_dict =
  att_name :: "string pyfield"
  att_path :: "string pyfield"
  att_type :: "string pyfield"
  att_size :: "int pyfield"

text \<open>
  \<open>INSERT INTO messages\<close>: the primary key must be new and the two \<open>CHECK\<close> constraints must hold.
\<close>

definition insert_message :: "db \<Rightarrow> message \<Rightarrow> error + db" where
  "insert_message conn m =
     (if message_id m \<in> message_id ` set (messages conn)
         \<or> role m \<notin> set [''user'', ''assistant'', ''system'']
         \<or> content_type m \<notin> set [''text'', ''image'', ''audio'', ''video'', ''file'']
      then Inl IntegrityError
      else Inr (conn\<lparr>messages := messages conn @ [m]\<rparr>))"

text \<open>\<open>UPDATE conversations SET last_updated = ? WHERE conversation_id = ?\<close>.\<close>

definition touch_conversation :: "db \<Rightarrow> real \<Rightarrow> string \<Rightarrow> db" where
  "touch_conversation conn t cid =
     conn\<lparr>conversations :=
            map (\<lambda>c. if conversation_id c = cid then c\<lparr>last_updated := SqlReal t\<rparr> else c)
                (conversations conn)\<rparr>"

definition insert_attachment :: "db \<Rightarrow> attachment \<Rightarrow> error + db" where
  "insert_attachment conn a =
     (if attachment_id a \<in> attachment_id ` set (attachments conn) then Inl IntegrityError
      else Inr (conn\<lparr>attachments := attachments conn @ [a]\<rparr>))"

text \<open>
  The loop \<open>for att in attachments\<close>; \<open>k\<close> counts the calls of \<open>uuid4\<close> made so far. The tuple of
  parameters is built left to right, so the first absent key is the one \<open>KeyError\<close> names.
\<close>

fun insert_attachments ::
  "db \<Rightarrow> (nat \<Rightarrow> string) \<Rightarrow> nat \<Rightarrow> string \<Rightarrow> real \<Rightarrow> attachment_dict list \<Rightarrow> error + db" where
  "insert_attachments conn uuid4 k mid t [] = Inr conn"
| "insert_attachments conn uuid4 k mid t (att # rest) =
     (case dict_item ''name'' (att_name att) of Inl e \<Rightarrow> Inl e | Inr nm \<Rightarrow>
      case dict_item ''path'' (att_path att) of Inl e \<Rightarrow> Inl e | Inr pa \<Rightarrow>
      case dict_item ''type'' (att_type att) of Inl e \<Rightarrow> Inl e | Inr ty \<Rightarrow>
      case dict_item ''size'' (att_size att) of Inl e \<Rightarrow> Inl e | Inr sz \<Rightarrow>
      case insert_attachment conn
             \<lparr>attachment_id = uuid4 k, a_message_id = mid, file_name = nm, file_path = pa,
              file_type = ty, file_size = sz, a_created_at = t\<rparr> of
        Inl e \<Rightarrow> Inl e
      | Inr conn' \<Rightarrow> insert_attachments conn' uuid4 (Suc k) mid t rest)"

text \<open>
  \<open>add_message\<close>. \<open>attachments\<close> is \<open>None\<close> or a list; \<open>if attachments:\<close> is false for both \<open>None\<close>
  and the empty list.
\<close>

definition add_message ::
  "db \<Rightarrow> (nat \<Rightarrow> string) \<Rightarrow> real \<Rightarrow> string \<Rightarrow> string \<Rightarrow> string \<Rightarrow> string \<Rightarrow>
   attachment_dict list option \<Rightarrow> (error + string) \<times> db" where
  "add_message conn0 uuid4 current_time cid rl cont ctype atts =
     (let mid = uuid4 0 in
      with_conn conn0 (\<lambda>conn.
        case insert_message conn
               \<lparr>message_id = mid, m_conversation_id = cid, role = rl, content_type = ctype,
                content = cont, m_created_at = current_time\<rparr> of
          Inl e \<Rightarrow> Inl e
        | Inr conn1 \<Rightarrow>
            let conn2 = touch_conversation conn1 current_time cid in
            (case (case atts of
                     None \<Rightarrow> Inr conn2
                   | Some [] \<Rightarrow> Inr conn2
                   | Some (att # rest) \<Rightarrow>
                       insert_attachments conn2 uuid4 1 mid current_time (att # rest)) of
               Inl e \<Rightarrow> Inl e
             | Inr conn3 \<Rightarrow> Inr (mid, conn3))))"

subsection \<open>Reading a conversation back\<close>

text \<open>
  A row of \<open>messages m LEFT JOIN attachments a ON m.message_id = a.message_id\<close>: the message and
  the matching attachment, or the message alone (the attachment columns are then NULL).
\<close>

type_synonym joined_row = "message \<times> attachment option"

definition joined_rows :: "attachment list \<Rightarrow> message \<Rightarrow> joined_row list" where
  "joined_rows as m =
     (case filter (\<lambda>a. a_message_id a = message_id m) as of
        [] \<Rightarrow> [(m, None)]
      | a # hits \<Rightarrow> map (\<lambda>a. (m, Some a)) (a # hits))"

definition left_join :: "message list \<Rightarrow> attachment list \<Rightarrow> joined_row list" where
  "left_join ms as = concat (map (joined_rows as) ms)"

text \<open>
  The query of \<open>get_conversation_history\<close>: join, \<open>WHERE m.conversation_id = ?\<close>,
  \<open>ORDER BY m.created_at ASC\<close> (rows with equal keys keep the order the join gave them).
\<close>

definition select_history :: "db \<Rightarrow> string \<Rightarrow> joined_row list" where
  "select_history conn cid =
     sort_key (\<lambda>row. m_created_at (fst row))
       (filter (\<lambda>row. m_conversation_id (fst row) = cid)
          (left_join (messages conn) (attachments conn)))"

text \<open>The dictionaries the method returns: the six message columns and the attachment list.\<close>

record attachment_info =
  i_attachment_id :: string
  i_file_name :: "string option"
  i_file_path :: "string option"
  i_file_type :: "string option"
  i_file_size :: "int option"

record history_entry =
  h_message :: message
  h_attachments :: "attachment_info list"

definition attachment_info_of :: "attachment \<Rightarrow> attachment_info" where
  "attachment_info_of a =
     \<lparr>i_attachment_id = attachment_id a, i_file_name = file_name a, i_file_path = file_path a,
      i_file_type = file_type a, i_file_size = file_size a\<rparr>"

text \<open>
  One turn of the grouping loop. \<open>message_dict\<close> is a Python dictionary, which keeps its keys in
  insertion order: an association list. \<open>if row["attachment_id"]\<close> holds for a string that is
  not empty, and fails for \<open>None\<close> and for the empty string.
\<close>

definition group_row ::
  "(string \<times> history_entry) list \<Rightarrow> joined_row \<Rightarrow> (string \<times> history_entry) list" where
  "group_row message_dict row =
     (let mid = message_id (fst row);
          d1 = (if mid \<notin> fst ` set message_dict
                then message_dict @ [(mid, \<lparr>h_message = fst row, h_attachments = []\<rparr>)]
                else message_dict)
      in case snd row of
           None \<Rightarrow> d1
         | Some a \<Rightarrow>
             if attachment_id a \<noteq> ''''
             then map (\<lambda>(k, e). if k = mid
                                 then (k, e\<lparr>h_attachments := h_attachments e @ [attachment_info_of a]\<rparr>)
                                 else (k, e)) d1
             else d1)"

definition get_conversation_history :: "db \<Rightarrow> string \<Rightarrow> history_entry list" where
  "get_conversation_history conn cid =
     map snd (foldl group_row [] (select_history conn cid))"

subsection \<open>Notions the properties are stated with\<close>


text \<open>The descriptors the loop of \<open>add_message\<close> visits.\<close>

definition supplied :: "attachment_dict list option \<Rightarrow> attachment_dict list" where
  "supplied atts = (case atts of None \<Rightarrow> [] | Some xs \<Rightarrow> xs)"

text \<open>A descriptor that has all four keys, and the row the loop writes for it.\<close>

definition has_keys :: "attachment_dict \<Rightarrow> bool" where
  "has_keys att \<longleftrightarrow>
     att_name att \<noteq> NoKey \<and> att_path att \<noteq> NoKey \<and> att_type att \<noteq> NoKey \<and> att_size att \<noteq> NoKey"

fun pyfield_value :: "'a pyfield \<Rightarrow> 'a option" where
  "pyfield_value (Val v) = Some v"
| "pyfield_value _ = None"

definition attachment_row :: "string \<Rightarrow> real \<Rightarrow> string \<Rightarrow> attachment_dict \<Rightarrow> attachment" where
  "attachment_row mid t aid att =
     \<lparr>attachment_id = aid, a_message_id = mid, file_name = pyfield_value (att_name att),
      file_path = pyfield_value (att_path att), file_type = pyfield_value (att_type att),
      file_size = pyfield_value (att_size att), a_created_at = t\<rparr>"

text \<open>
  What the grouping loop computes on an arbitrary list of rows: the attachment a row contributes
  to the entry with key \<open>k\<close>, the attachments a list of rows contributes, and the messages in the
  order in which their keys first occur (\<open>seen\<close> holds the keys met so far).
\<close>

fun row_attachment :: "string \<Rightarrow> joined_row \<Rightarrow> attachment_info list" where
  "row_attachment k (m, Some a) =
     (if message_id m = k \<and> attachment_id a \<noteq> '''' then [attachment_info_of a] else [])"
| "row_attachment k (m, None) = []"

definition attachments_in :: "string \<Rightarrow> joined_row list \<Rightarrow> attachment_info list" where
  "attachments_in k rows = concat (map (row_attachment k) rows)"

fun first_messages :: "string set \<Rightarrow> joined_row list \<Rightarrow> message list" where
  "first_messages seen [] = []"
| "first_messages seen (row # rows) =
     (if message_id (fst row) \<in> seen then first_messages seen rows
      else fst row # first_messages (insert (message_id (fst row)) seen) rows)"

subsection \<open>Sequences of calls on the settings store\<close>

text \<open>
  The calls that reach the settings table, with what the environment hands to each. A run starts
  with \<open>_init_db\<close> at a path where no file exists; a later \<open>Initialize\<close> is the constructor run
  again on the file as it stands. A call that raises leaves the file as its \<open>with\<close> block or
  script left it, and the run goes on.
\<close>

datatype settings_op =
    Initialize sqlval
  | AddSettings sqlval settings_dict
  | SaveSettings real settings_dict
  | SetDefaultSettings int

fun apply_op :: "db \<Rightarrow> settings_op \<Rightarrow> db" where
  "apply_op conn (Initialize dflt) = snd (init_db (Some conn) dflt)"
| "apply_op conn (AddSettings dflt st) = snd (add_settings conn dflt st)"
| "apply_op conn (SaveSettings current_time st) = snd (save_settings conn current_time st)"
| "apply_op conn (SetDefaultSettings i) = snd (set_default_settings conn i)"

definition run_ops :: "sqlval \<Rightarrow> settings_op list \<Rightarrow> db" where
  "run_ops dflt ops = foldl apply_op (snd (init_db None dflt)) ops"

text \<open>The number of rows for which \<open>"default" = true\<close>.\<close>

definition default_count :: "db \<Rightarrow> nat" where
  "default_count conn = length (filter s_default (settings conn))"

text \<open>
  What the schema and the run keep true of the settings table: the primary key is unique, at most
  one row is flagged, and the four tables are the ones the script created.
\<close>

definition settings_ok :: "db \<Rightarrow> bool" where
  "settings_ok conn \<longleftrightarrow>
     distinct (map s_id (settings conn)) \<and> default_count conn \<le> 1 \<and>
     tables conn = [''conversations'', ''messages'', ''attachments'', ''settings'']"

subsection \<open>Sample values\<close>

text \<open>
  A value of the column default, and the store right after the constructor ran at a path where
  no file existed.
\<close>

definition sample_stamp :: sqlval where
  "sample_stamp = SqlText ''1730745600.00.000''"

definition sample_db :: db where
  "sample_db = snd (init_db None sample_stamp)"

text \<open>The dictionary \<open>{}\<close>.\<close>

definition empty_dict :: settings_dict where
  "empty_dict =
     \<lparr>d_id = NoKey, d_name = NoKey, d_temperature = NoKey, d_max_tokens = NoKey,
      d_top_p = NoKey, d_host = NoKey, d_model_name = NoKey, d_api_key = NoKey\<rparr>"

text \<open>The dictionary \<open>{"id": 1, "name": "fast", "temperature": 0.2, "max_tokens": None}\<close>.\<close>

definition sample_dict :: settings_dict where
  "sample_dict =
     \<lparr>d_id = Val 1, d_name = Val ''fast'', d_temperature = Val 0.2, d_max_tokens = PyNone,
      d_top_p = NoKey, d_host = NoKey, d_model_name = NoKey, d_api_key = NoKey\<rparr>"

text \<open>A reading of \<open>time.time()\<close>.\<close>

definition sample_time :: real where
  "sample_time = 1730745660.5"

text \<open>
  A store with two conversations: \<open>c1\<close> holds a user message and a later assistant message with
  two attachments, \<open>c2\<close> a message with one attachment. The rows of \<open>c1\<close> were inserted in the
  opposite order of their timestamps.
\<close>

definition sample_chat :: db where
  "sample_chat =
     sample_db\<lparr>
       conversations :=
         [\<lparr>conversation_id = ''c1'', c_created_at = sample_stamp, last_updated = SqlReal 20,
           summary = None\<rparr>,
          \<lparr>conversation_id = ''c2'', c_created_at = sample_stamp, last_updated = SqlReal 30,
           summary = None\<rparr>],
       messages :=
         [\<lparr>message_id = ''m2'', m_conversation_id = ''c1'', role = ''assistant'',
           content_type = ''text'', content = ''hi'', m_created_at = 20\<rparr>,
          \<lparr>message_id = ''m3'', m_conversation_id = ''c2'', role = ''user'',
           content_type = ''file'', content = ''see file'', m_created_at = 30\<rparr>,
          \<lparr>message_id = ''m1'', m_conversation_id = ''c1'', role = ''user'',
           content_type = ''text'', content = ''hello'', m_created_at = 10\<rparr>],
       attachments :=
         [\<lparr>attachment_id = ''a1'', a_message_id = ''m2'', file_name = Some ''a.png'',
           file_path = Some ''/tmp/a.png'', file_type = Some ''image/png'', file_size = Some 1024,
           a_created_at = 20\<rparr>,
          \<lparr>attachment_id = ''a2'', a_message_id = ''m3'', file_name = Some ''b.txt'',
           file_path = Some ''/tmp/b.txt'', file_type = Some ''text/plain'', file_size = Some 7,
           a_created_at = 30\<rparr>,
          \<lparr>attachment_id = ''a3'', a_message_id = ''m2'', file_name = Some ''c.pdf'',
           file_path = Some ''/tmp/c.pdf'', file_type = None, file_size = Some 99,
           a_created_at = 20\<rparr>]\<rparr>"

text \<open>A source of identifiers, and an attachment descriptor with all four keys.\<close>

definition sample_uuid4 :: "string \<Rightarrow> nat \<Rightarrow> string" where
  "sample_uuid4 tag k = tag @ replicate (Suc k) (CHR ''x'')"

definition sample_attachment :: attachment_dict where
  "sample_attachment =
     \<lparr>att_name = Val ''a.png'', att_path = Val ''/tmp/a.png'', att_type = Val ''image/png'',
      att_size = Val 1024\<rparr>"

text \<open>
  Two files that exist before the constructor runs: one that holds only the \<open>conversations\<close>
  table, with a row in it, and one written by a version of the schema without the \<open>summary\<close>
  column.
\<close>

definition partial_db :: db where
  "partial_db =
     empty_db\<lparr>tables := [''conversations''],
              conversations_columns := [''conversation_id'', ''created_at'', ''last_updated''],
              conversations := [\<lparr>conversation_id = ''c1'', c_created_at = sample_stamp,
                                 last_updated = sample_stamp, summary = None\<rparr>]\<rparr>"

definition old_db :: db where
  "old_db =
     sample_chat\<lparr>conversations_columns := [''conversation_id'', ''created_at'', ''last_updated'']\<rparr>"

text \<open>
  The scenario of the specification: a new store, a conversation, the user message \<open>hello\<close>, then
  the assistant message \<open>hi\<close> with the attachment \<open>a.png\<close>.
\<close>

definition scenario_db :: db where
  "scenario_db =
     (let conn1 = snd (create_conversation sample_db (sample_uuid4 ''c'') sample_stamp);
          conn2 = snd (add_message conn1 (sample_uuid4 ''m'') 10 ''cx'' ''user'' ''hello'' ''text'' None)
      in snd (add_message conn2 (sample_uuid4 ''n'') 20 ''cx'' ''assistant'' ''hi'' ''text''
                (Some [sample_attachment])))"

section \<open>Properties\<close>

subsection \<open>Designating the default profile\<close>

lemma filter_s_id_map_hit:
  assumes "\<And>s. s_id (f s) = s_id s"
  shows "(0 < length (filter (\<lambda>s. s_id s = i) (map f xs))) = (i \<in> s_id ` set xs)"
proof -
  have "filter (\<lambda>s. s_id s = i) (map f xs) = map f (filter (\<lambda>s. s_id s = i) xs)"
    by (simp add: filter_map comp_def assms)
  then show ?thesis
    by (auto simp: filter_empty_conv)
qed

lemma set_default_settings_result:
  "set_default_settings conn i =
     (Inr (i \<in> s_id ` set (settings conn)),
      conn\<lparr>settings := map (\<lambda>s. s\<lparr>s_default := (s_id s = i)\<rparr>) (settings conn)\<rparr>)"
proof -
  let ?clr = "\<lambda>s. if s_default s then s\<lparr>s_default := False\<rparr> else s"
  let ?set = "\<lambda>s. if s_id s = i then s\<lparr>s_default := True\<rparr> else s"
  have cnt: "(0 < length (filter (\<lambda>s. s_id s = i) (map ?clr (settings conn))))
             = (i \<in> s_id ` set (settings conn))"
    by (rule filter_s_id_map_hit) simp
  have rows: "map ?set (map ?clr (settings conn))
              = map (\<lambda>s. s\<lparr>s_default := (s_id s = i)\<rparr>) (settings conn)"
    by (induction "settings conn") auto
  have "set_default_settings conn i =
        (Inr (0 < length (filter (\<lambda>s. s_id s = i) (map ?clr (settings conn)))),
         conn\<lparr>settings := map ?set (map ?clr (settings conn))\<rparr>)"
    by (simp add: set_default_settings_def with_conn_def clear_default_def mark_default_def
        Let_def del: length_greater_0_conv filter_map map_map)
  then show ?thesis
    by (simp only: cnt rows)
qed

subsection \<open>The settings table along a run\<close>

lemma next_rowid_fresh: "next_rowid conn \<notin> s_id ` set (settings conn)"
proof -
  have le: "\<forall>s \<in> set xs. s_id s \<le> foldr max (map s_id xs) b" for xs :: "setting list" and b
    by (induction xs) auto
  have "s_id s < next_rowid conn" if "s \<in> set (settings conn)" for s
    using that le [of "settings conn" "settings_seq conn"] by (auto simp: next_rowid_def)
  then show ?thesis
    by fastforce
qed

lemma default_count_cong:
  assumes "map s_default (settings conn') = map s_default (settings conn)"
  shows "default_count conn' = default_count conn"
proof -
  have eq: "length (filter s_default xs) = length (filter id (map s_default xs))"
    for xs :: "setting list"
    by (simp add: filter_map comp_def)
  show ?thesis
    unfolding default_count_def eq assms ..
qed

lemma insert_setting_result:
  assumes "insert_setting conn nm dfl t m p h mn ak u = Inr (i, conn')"
  shows "i = next_rowid conn \<and> nm \<noteq> None \<and>
         conn' = conn\<lparr>settings := settings conn @
                   [\<lparr>s_id = i, s_name = the nm, s_default = dfl, temperature = t,
                     max_tokens = m, top_p = p, host = h, model_name = mn, api_key = ak,
                     updated_at = u\<rparr>],
                 settings_seq := i\<rparr>"
  using assms by (auto simp: insert_setting_def Let_def split: option.splits)

lemma insert_setting_ok:
  assumes "settings_ok conn" and "insert_setting conn nm False t m p h mn ak u = Inr (i, conn')"
  shows "settings_ok conn'"
  using assms(1) insert_setting_result [OF assms(2)] next_rowid_fresh [of conn]
  by (auto simp: settings_ok_def default_count_def)

lemma add_settings_ok: "settings_ok conn \<Longrightarrow> settings_ok (snd (add_settings conn dflt st))"
  by (auto simp: add_settings_def with_conn_def split: sum.splits dest: insert_setting_ok)

lemma update_setting_frame:
  assumes "update_setting conn i nm t m p h mn ak u = Inr (n, conn')"
  shows "map s_id (settings conn') = map s_id (settings conn)"
    and "map s_default (settings conn') = map s_default (settings conn)"
    and "tables conn' = tables conn"
  using assms
  by (auto simp: update_setting_def Let_def comp_def split: option.splits if_splits)

lemma update_setting_ok:
  assumes "settings_ok conn" and "update_setting conn i nm t m p h mn ak u = Inr (n, conn')"
  shows "settings_ok conn'"
  using assms(1) update_setting_frame [OF assms(2)] default_count_cong [of conn' conn]
  by (simp add: settings_ok_def)

lemma save_settings_ok: "settings_ok conn \<Longrightarrow> settings_ok (snd (save_settings conn now st))"
  by (auto simp: save_settings_def with_conn_def Let_def split: sum.splits pyfield.splits
      dest: insert_setting_ok update_setting_ok)

lemma length_filter_distinct_key:
  "distinct (map f xs) \<Longrightarrow> length (filter (\<lambda>x. f x = i) xs) = (if i \<in> f ` set xs then 1 else 0)"
  by (induction xs) (auto simp: image_iff)

lemma filter_default_after_set:
  "filter s_default (map (\<lambda>s. s\<lparr>s_default := (s_id s = i)\<rparr>) xs)
   = map (\<lambda>s. s\<lparr>s_default := True\<rparr>) (filter (\<lambda>s. s_id s = i) xs)"
  by (induction xs) auto

lemma set_default_settings_ok:
  "settings_ok conn \<Longrightarrow> settings_ok (snd (set_default_settings conn i))"
  by (simp add: set_default_settings_result settings_ok_def default_count_def
      filter_default_after_set length_filter_distinct_key comp_def)

lemma init_db_None_ok: "settings_ok (snd (init_db None dflt))"
  by (simp add: init_db_def DB_script_def empty_db_def create_table_def insert_setting_def
      next_rowid_def settings_ok_def default_count_def)

lemma init_db_Some_ok: "settings_ok conn \<Longrightarrow> settings_ok (snd (init_db (Some conn) dflt))"
  by (auto simp: init_db_def Let_def settings_ok_def default_count_def)

lemma run_ops_ok: "settings_ok (run_ops dflt ops)"
proof -
  have step: "settings_ok conn \<Longrightarrow> settings_ok (apply_op conn x)" for conn x
    by (cases x) (simp_all add: init_db_Some_ok add_settings_ok save_settings_ok set_default_settings_ok)
  have "settings_ok conn \<Longrightarrow> settings_ok (foldl apply_op conn ops)" for conn
    by (induction ops arbitrary: conn) (simp_all add: step)
  then show ?thesis
    by (simp add: run_ops_def init_db_None_ok)
qed


lemma sample_db_settings:
  "settings sample_db =
     [\<lparr>s_id = 1, s_name = ''default'', s_default = True, temperature = Some 1.0,
       max_tokens = Some 4096, top_p = Some 0.95, host = Some ''http://localhost:8000/v1'',
       model_name = Some ''meta-llama/Llama-3.2-1B-Instruct'', api_key = Some '''',
       updated_at = sample_stamp\<rparr>]"
  and sample_db_seq: "settings_seq sample_db = 1"
  and sample_db_tables:
    "tables sample_db = [''conversations'', ''messages'', ''attachments'', ''settings'']"
  by (simp_all add: sample_db_def init_db_def DB_script_def empty_db_def create_table_def
      insert_setting_def next_rowid_def)

text \<open>
  C1. Along every sequence of \<open>_init_db\<close>, \<open>add_settings\<close>, \<open>save_settings\<close> and
  \<open>set_default_settings\<close> calls that starts on a new file, the number of profiles flagged default
  is 0 or 1; and when \<open>set_default_settings i\<close> then returns \<open>True\<close>, exactly one profile is
  flagged afterwards, and it is the profile \<open>i\<close>.
\<close>

theorem single_default_invariant:
  "default_count (run_ops dflt ops) \<le> 1 \<and>
   (set_default_settings (run_ops dflt ops) i = (Inr True, conn') \<longrightarrow>
      default_count conn' = 1 \<and> map s_id (filter s_default (settings conn')) = [i])"
proof -
  let ?conn = "run_ops dflt ops"
  have ok: "settings_ok ?conn"
    by (rule run_ops_ok)
  have "default_count conn' = 1 \<and> map s_id (filter s_default (settings conn')) = [i]"
    if call: "set_default_settings ?conn i = (Inr True, conn')"
  proof -
    from call have mem: "i \<in> s_id ` set (settings ?conn)"
      and rows: "settings conn' = map (\<lambda>s. s\<lparr>s_default := (s_id s = i)\<rparr>) (settings ?conn)"
      by (auto simp: set_default_settings_result)
    from ok have "distinct (map s_id (settings ?conn))"
      by (simp add: settings_ok_def)
    then have one: "length (filter (\<lambda>s. s_id s = i) (settings ?conn)) = 1"
      using mem by (simp add: length_filter_distinct_key)
    then obtain s where s: "filter (\<lambda>s. s_id s = i) (settings ?conn) = [s]"
      by (auto simp: length_Suc_conv)
    then have "s \<in> set (filter (\<lambda>s. s_id s = i) (settings ?conn))"
      by simp
    then have "s_id s = i"
      by simp
    with s show ?thesis
      by (simp add: default_count_def rows filter_default_after_set)
  qed
  with ok show ?thesis
    by (simp add: settings_ok_def)
qed

theorem single_default_invariant_witness:
  "default_count (run_ops sample_stamp [AddSettings sample_stamp empty_dict, SetDefaultSettings 7]) \<le> 1 \<and>
   set_default_settings (run_ops sample_stamp [AddSettings sample_stamp empty_dict, SetDefaultSettings 7]) 2
     = (Inr True, snd (set_default_settings (run_ops sample_stamp [AddSettings sample_stamp empty_dict, SetDefaultSettings 7]) 2)) \<and>
   map s_id (filter s_default (settings (snd (set_default_settings
     (run_ops sample_stamp [AddSettings sample_stamp empty_dict, SetDefaultSettings 7]) 2)))) = [2]"
proof -
  let ?conn = "run_ops sample_stamp [AddSettings sample_stamp empty_dict, SetDefaultSettings 7]"
  have ids: "map s_id (settings ?conn) = [1, 2]"
    using sample_db_settings sample_db_seq
    by (simp add: run_ops_def sample_db_def [symmetric] add_settings_def with_conn_def
        insert_setting_def next_rowid_def empty_dict_def set_default_settings_result)
  then have "2 \<in> set (map s_id (settings ?conn))"
    by simp
  then have call: "set_default_settings ?conn 2 = (Inr True, snd (set_default_settings ?conn 2))"
    by (simp add: set_default_settings_result)
  from single_default_invariant [of sample_stamp
      "[AddSettings sample_stamp empty_dict, SetDefaultSettings 7]" 2
      "snd (set_default_settings ?conn 2)"] call
  show ?thesis
    by simp
qed



subsection \<open>Adding, reading and saving a profile\<close>


lemma add_settings_returns:
  "d_name st \<noteq> PyNone \<Longrightarrow> \<exists>i conn'. add_settings conn dflt st = (Inr i, conn')"
  by (cases "d_name st") (simp_all add: add_settings_def with_conn_def insert_setting_def Let_def)

lemma add_settings_rejected:
  "d_name st = PyNone \<Longrightarrow> add_settings conn dflt st = (Inl IntegrityError, conn)"
  by (simp add: add_settings_def with_conn_def insert_setting_def)



lemma update_setting_rows:
  assumes "update_setting conn i nm t m p h mn ak u = Inr (n, conn')" and "0 < n"
  shows "\<exists>name. nm = Some name \<and>
           conn' = conn\<lparr>settings :=
                     map (\<lambda>s. if s_id s = i
                               then s\<lparr>s_name := name, temperature := t, max_tokens := m,
                                      top_p := p, host := h, model_name := mn, api_key := ak,
                                      updated_at := u\<rparr>
                               else s) (settings conn)\<rparr>"
  using assms by (auto simp: update_setting_def Let_def split: option.splits if_splits)

lemma save_settings_rejected:
  assumes "d_id st = Val i" and "i \<in> s_id ` set (settings conn)" and "d_name st = PyNone"
  shows "save_settings conn current_time st = (Inl IntegrityError, conn)"
proof -
  from assms(2) have "filter (\<lambda>s. s_id s = i) (settings conn) \<noteq> []"
    by (auto simp: filter_empty_conv)
  with assms(1,3) show ?thesis
    by (simp add: save_settings_def with_conn_def Let_def update_setting_def)
qed

lemma save_settings_returns:
  assumes "d_id st = Val i" and "d_name st \<noteq> PyNone"
  shows "\<exists>conn'. save_settings conn current_time st
           = (Inr (i \<in> s_id ` set (settings conn)), conn')"
proof -
  have "(0 < length (filter (\<lambda>s. s_id s = i) xs)) = (i \<in> s_id ` set xs)" for xs :: "setting list"
    by (induction xs) auto
  with assms show ?thesis
    by (cases "d_name st")
      (simp_all add: save_settings_def with_conn_def Let_def update_setting_def Let_def
        del: length_greater_0_conv)
qed

text \<open>
  C9. When \<open>save_settings\<close> is given the id of an existing profile and returns, it returns
  \<open>True\<close> and the rows of the settings table are the old rows in the old order, where every row
  keeps its id and its default flag, every row with another id is unchanged, and the row with
  the id carries the supplied (or default) name, temperature, max\_tokens, top\_p, host,
  model\_name and api\_key and the current time as \<open>updated_at\<close>. The other tables are unchanged.
\<close>

theorem save_settings_frame:
  assumes "d_id st = Val i"
    and "i \<in> s_id ` set (settings conn)"
    and "save_settings conn current_time st = (Inr b, conn')"
  shows "b \<and>
         list_all2
           (\<lambda>old new.
              s_id new = s_id old \<and> s_default new = s_default old \<and>
              (if s_id old = i
               then Some (s_name new) = dict_get (d_name st) ''Default Config''
                  \<and> temperature new = dict_get (d_temperature st) 1.0
                  \<and> max_tokens new = dict_get (d_max_tokens st) 4096
                  \<and> top_p new = dict_get (d_top_p st) 0.95
                  \<and> host new = dict_get (d_host st) ''http://localhost:8000/v1''
                  \<and> model_name new = dict_get (d_model_name st) ''meta-llama/Llama-3.2-1B-Instruct''
                  \<and> api_key new = dict_get (d_api_key st) ''''
                  \<and> updated_at new = SqlReal current_time
               else new = old))
           (settings conn) (settings conn') \<and>
         conversations conn' = conversations conn \<and> messages conn' = messages conn \<and>
         attachments conn' = attachments conn"
proof -
  from assms(1,3) obtain n where
    upd: "update_setting conn i (dict_get (d_name st) ''Default Config'')
            (dict_get (d_temperature st) 1.0) (dict_get (d_max_tokens st) 4096)
            (dict_get (d_top_p st) 0.95) (dict_get (d_host st) ''http://localhost:8000/v1'')
            (dict_get (d_model_name st) ''meta-llama/Llama-3.2-1B-Instruct'')
            (dict_get (d_api_key st) '''') (SqlReal current_time) = Inr (n, conn')"
    and b: "b = (0 < n)"
    by (auto simp: save_settings_def with_conn_def Let_def split: sum.splits)
  from assms(2) have hit: "filter (\<lambda>s. s_id s = i) (settings conn) \<noteq> []"
    by (auto simp: filter_empty_conv)
  with upd have n: "0 < n"
    by (auto simp: update_setting_def Let_def split: option.splits if_splits)
  from update_setting_rows [OF upd n] obtain name where
    name: "dict_get (d_name st) ''Default Config'' = Some name"
    and conn': "conn' = conn\<lparr>settings :=
                  map (\<lambda>s. if s_id s = i
                            then s\<lparr>s_name := name,
                                   temperature := dict_get (d_temperature st) 1.0,
                                   max_tokens := dict_get (d_max_tokens st) 4096,
                                   top_p := dict_get (d_top_p st) 0.95,
                                   host := dict_get (d_host st) ''http://localhost:8000/v1'',
                                   model_name := dict_get (d_model_name st)
                                                   ''meta-llama/Llama-3.2-1B-Instruct'',
                                   api_key := dict_get (d_api_key st) '''',
                                   updated_at := SqlReal current_time\<rparr>
                            else s) (settings conn)\<rparr>"
    by blast
  show ?thesis
    using b n name
    by (simp add: conn' list_all2_map2 list_all2_same)
qed

theorem save_settings_frame_witness:
  "d_id sample_dict = Val 1 \<and>
   save_settings sample_db sample_time sample_dict
     = (Inr True, snd (save_settings sample_db sample_time sample_dict)) \<and>
   settings (snd (save_settings sample_db sample_time sample_dict))
     = [\<lparr>s_id = 1, s_name = ''fast'', s_default = True, temperature = Some 0.2,
         max_tokens = None, top_p = Some 0.95, host = Some ''http://localhost:8000/v1'',
         model_name = Some ''meta-llama/Llama-3.2-1B-Instruct'', api_key = Some '''',
         updated_at = SqlReal sample_time\<rparr>]"
proof -
  let ?conn' = "snd (save_settings sample_db sample_time sample_dict)"
  have id: "d_id sample_dict = Val 1" and mem: "1 \<in> s_id ` set (settings sample_db)"
    by (simp_all add: sample_dict_def sample_db_settings)
  have call: "save_settings sample_db sample_time sample_dict = (Inr True, ?conn')"
    using save_settings_returns [of sample_dict 1 sample_db sample_time] mem
    by (auto simp: sample_dict_def)
  from save_settings_frame [OF id mem call] obtain new where
    "settings ?conn' = [new]" "s_id new = 1" "s_default new" "s_name new = ''fast''"
    "temperature new = Some 0.2" "max_tokens new = None" "top_p new = Some 0.95"
    "host new = Some ''http://localhost:8000/v1''"
    "model_name new = Some ''meta-llama/Llama-3.2-1B-Instruct''" "api_key new = Some ''''"
    "updated_at new = SqlReal sample_time"
    by (auto simp: sample_db_settings sample_dict_def list_all2_Cons1)
  with id call show ?thesis
    by (cases new) simp
qed

subsection \<open>The join and its order\<close>

lemma joined_rows_fst: "row \<in> set (joined_rows as m) \<Longrightarrow> fst row = m"
  by (auto simp: joined_rows_def split: list.splits)

lemma left_join_Cons: "left_join (m # ms) as = joined_rows as m @ left_join ms as"
  by (simp add: left_join_def)

lemma left_join_Nil: "left_join [] as = []"
  by (simp add: left_join_def)

lemma left_join_fst: "row \<in> set (left_join ms as) \<Longrightarrow> fst row \<in> set ms"
  by (induction ms) (auto simp: left_join_Cons left_join_Nil dest: joined_rows_fst)

lemma filter_joined_rows:
  "filter (\<lambda>row. P (fst row)) (joined_rows as m) = (if P m then joined_rows as m else [])"
proof -
  have "\<forall>row \<in> set (joined_rows as m). P (fst row) = P m"
    by (auto dest: joined_rows_fst)
  then show ?thesis
    by (auto simp: filter_empty_conv)
qed

lemma filter_left_join:
  "filter (\<lambda>row. P (fst row)) (left_join ms as) = left_join (filter P ms) as"
  by (induction ms) (simp_all add: left_join_Cons left_join_Nil filter_joined_rows)

lemma mset_left_join: "mset ms = mset ms' \<Longrightarrow> mset (left_join ms as) = mset (left_join ms' as)"
proof -
  have "mset (left_join xs as) = (\<Sum>m \<in># mset xs. mset (joined_rows as m))" for xs
    by (induction xs) (simp_all add: left_join_Cons left_join_Nil)
  then show "mset ms = mset ms' \<Longrightarrow> mset (left_join ms as) = mset (left_join ms' as)"
    by simp
qed

lemma sorted_map_const: "(\<And>x. x \<in> set xs \<Longrightarrow> g x = c) \<Longrightarrow> sorted (map g xs)"
  by (induction xs) auto

lemma sorted_left_join:
  "sorted (map f ms) \<Longrightarrow> sorted (map (\<lambda>row. f (fst row)) (left_join ms as))"
proof (induction ms)
  case Nil
  then show ?case by (simp add: left_join_Nil)
next
  case (Cons m ms)
  have here: "sorted (map (\<lambda>row. f (fst row)) (joined_rows as m))"
    by (rule sorted_map_const [where c = "f m"]) (simp add: joined_rows_fst)
  from Cons have rest: "sorted (map (\<lambda>row. f (fst row)) (left_join ms as))"
    and le: "\<forall>m' \<in> set ms. f m \<le> f m'"
    by simp_all
  have "f (fst x) \<le> f (fst y)"
    if "x \<in> set (joined_rows as m)" and "y \<in> set (left_join ms as)" for x y
    using that le joined_rows_fst [of x as m] left_join_fst [of y ms as] by simp
  with here rest show ?case
    by (simp add: left_join_Cons sorted_append)
qed

lemma sort_key_left_join:
  "sort_key (\<lambda>row. f (fst row)) (left_join ms as) = left_join (sort_key f ms) as"
proof (rule properties_for_sort_key)
  show "mset (left_join (sort_key f ms) as) = mset (left_join ms as)"
    by (rule mset_left_join) simp
  show "sorted (map (\<lambda>row. f (fst row)) (left_join (sort_key f ms) as))"
    by (rule sorted_left_join) simp
  fix k
  have "filter (\<lambda>m. f (fst k) = f m) (sort_key f ms) = filter (\<lambda>m. f (fst k) = f m) ms"
    using sort_key_stable [of f "f (fst k)" ms] by (simp add: eq_commute)
  then show "filter (\<lambda>row. f (fst k) = f (fst row)) (left_join (sort_key f ms) as)
             = filter (\<lambda>row. f (fst k) = f (fst row)) (left_join ms as)"
    by (simp only: filter_left_join [where P = "\<lambda>m. f (fst k) = f m"])
qed

lemma select_history_eq:
  "select_history conn cid =
     left_join (sort_key m_created_at (filter (\<lambda>m. m_conversation_id m = cid) (messages conn)))
       (attachments conn)"
  by (simp only: select_history_def filter_left_join [where P = "\<lambda>m. m_conversation_id m = cid"]
      sort_key_left_join [where f = m_created_at])

subsection \<open>Grouping the rows\<close>








lemma sample_chat_rows:
  "map message_id (messages sample_chat) = [''m2'', ''m3'', ''m1'']"
  "map m_conversation_id (messages sample_chat) = [''c1'', ''c2'', ''c1'']"
  "map attachment_id (attachments sample_chat) = [''a1'', ''a2'', ''a3'']"
  "map a_message_id (attachments sample_chat) = [''m2'', ''m3'', ''m2'']"
  "map conversation_id (conversations sample_chat) = [''c1'', ''c2'']"
  by (simp_all add: sample_chat_def)



text \<open>
  C10. For an id that no message row carries, whether or not a conversation row has it,
  \<open>get_conversation_history\<close> returns the empty list; the method has no raising branch.
\<close>

theorem get_conversation_history_empty:
  assumes "\<forall>m \<in> set (messages conn). m_conversation_id m \<noteq> cid"
  shows "get_conversation_history conn cid = []"
proof -
  from assms have "filter (\<lambda>m. m_conversation_id m = cid) (messages conn) = []"
    by (simp add: filter_empty_conv)
  then show ?thesis
    by (simp add: get_conversation_history_def select_history_eq left_join_Nil)
qed

theorem get_conversation_history_empty_witness:
  "''c9'' \<notin> set (map conversation_id (conversations sample_chat))
   \<and> get_conversation_history sample_chat ''c9'' = []
   \<and> get_conversation_history sample_db ''c1'' = []"
proof -
  have a: "\<forall>x \<in> set (map m_conversation_id (messages sample_chat)). x \<noteq> ''c9''"
    by (simp add: sample_chat_rows)
  have b: "\<forall>m \<in> set (messages sample_db). m_conversation_id m \<noteq> ''c1''"
    by (simp add: sample_db_def init_db_def DB_script_def empty_db_def create_table_def
        insert_setting_def Let_def)
  from a have a': "\<forall>m \<in> set (messages sample_chat). m_conversation_id m \<noteq> ''c9''"
    by simp
  from get_conversation_history_empty [OF a'] get_conversation_history_empty [OF b]
  show ?thesis
    by (simp add: sample_chat_rows)
qed

subsection \<open>Grouping rows that arrive in any order\<close>

lemma attachments_in_Cons:
  "attachments_in k (row # rows) = row_attachment k row @ attachments_in k rows"
  by (simp add: attachments_in_def)

lemma attachments_in_Nil: "attachments_in k [] = []"
  by (simp add: attachments_in_def)

lemma row_attachment_other: "message_id (fst row) \<noteq> k \<Longrightarrow> row_attachment k row = []"
  by (cases row; cases "snd row") auto

lemma group_row_shape:
  "group_row acc row =
     map (\<lambda>(k, e). (k, e\<lparr>h_attachments := h_attachments e @ row_attachment k row\<rparr>)) acc
     @ (if message_id (fst row) \<in> fst ` set acc then []
        else [(message_id (fst row),
               \<lparr>h_message = fst row,
                h_attachments = row_attachment (message_id (fst row)) row\<rparr>)])"
proof -
  obtain m oa where row: "row = (m, oa)"
    by (cases row)
  have same: "map (\<lambda>(k, e). (k, e\<lparr>h_attachments := h_attachments e @ []\<rparr>)) acc = acc"
    by (induction acc) auto
  have upd: "map (\<lambda>(k, e). if k = message_id m
                             then (k, e\<lparr>h_attachments := h_attachments e @ [x]\<rparr>) else (k, e)) xs
             = map (\<lambda>(k, e). (k, e\<lparr>h_attachments :=
                                     h_attachments e @ (if message_id m = k then [x] else [])\<rparr>)) xs"
    for x and xs :: "(string \<times> history_entry) list"
    by (induction xs) auto
  show ?thesis
  proof (cases oa)
    case None
    then show ?thesis
      by (simp add: row group_row_def same)
  next
    case (Some a)
    show ?thesis
    proof (cases "attachment_id a = ''''")
      case True
      with Some show ?thesis
        by (simp add: row group_row_def same)
    next
      case False
      with Some show ?thesis
        by (simp add: row group_row_def Let_def upd)
    qed
  qed
qed

lemma first_messages_unseen:
  "m \<in> set (first_messages seen rows) \<Longrightarrow> message_id m \<notin> seen \<and> m \<in> fst ` set rows"
  by (induction rows arbitrary: seen) (auto split: if_splits)

lemma first_messages_keys:
  "message_id ` set (first_messages seen rows) = (message_id \<circ> fst) ` set rows - seen"
  by (induction rows arbitrary: seen) auto

lemma first_messages_distinct: "distinct (map message_id (first_messages seen rows))"
  by (induction rows arbitrary: seen) (auto dest: first_messages_unseen)

lemma first_messages_sorted:
  "sorted (map (\<lambda>row. f (fst row)) rows) \<Longrightarrow> sorted (map f (first_messages seen rows))"
  by (induction rows arbitrary: seen) (auto dest!: first_messages_unseen)

lemma foldl_group_row_any:
  "foldl group_row acc rows =
     map (\<lambda>(k, e). (k, e\<lparr>h_attachments := h_attachments e @ attachments_in k rows\<rparr>)) acc
     @ map (\<lambda>m. (message_id m,
                  \<lparr>h_message = m, h_attachments = attachments_in (message_id m) rows\<rparr>))
           (first_messages (fst ` set acc) rows)"
proof (induction rows arbitrary: acc)
  case Nil
  have "map (\<lambda>(k, e). (k, e\<lparr>h_attachments := h_attachments e @ []\<rparr>)) acc = acc"
    by (induction acc) auto
  then show ?case
    by (simp add: attachments_in_Nil)
next
  case (Cons row rows)
  let ?k = "message_id (fst row)"
  let ?acc' = "group_row acc row"
  have fst_upd: "map fst (map (\<lambda>(k, e). (k, g k e)) xs) = map fst xs"
    for g :: "string \<Rightarrow> history_entry \<Rightarrow> history_entry" and xs
    by (induction xs) auto
  have "map fst ?acc' = map fst acc @ (if ?k \<in> fst ` set acc then [] else [?k])"
    unfolding group_row_shape map_append fst_upd by simp
  then have "set (map fst ?acc') = insert ?k (set (map fst acc))"
    by (simp only:) auto
  then have keys: "fst ` set ?acc' = insert ?k (fst ` set acc)"
    by (simp only: set_map)
  have later: "map (\<lambda>m. (message_id m,
                    \<lparr>h_message = m, h_attachments = attachments_in (message_id m) rows\<rparr>))
                 (first_messages (insert ?k (fst ` set acc)) rows)
               = map (\<lambda>m. (message_id m,
                    \<lparr>h_message = m, h_attachments = attachments_in (message_id m) (row # rows)\<rparr>))
                 (first_messages (insert ?k (fst ` set acc)) rows)"
  proof (rule map_cong [OF refl])
    fix m
    assume "m \<in> set (first_messages (insert ?k (fst ` set acc)) rows)"
    then have "message_id m \<noteq> ?k"
      by (auto dest: first_messages_unseen)
    then show "(message_id m,
                 \<lparr>h_message = m, h_attachments = attachments_in (message_id m) rows\<rparr>)
               = (message_id m,
                 \<lparr>h_message = m, h_attachments = attachments_in (message_id m) (row # rows)\<rparr>)"
      by (simp add: attachments_in_Cons row_attachment_other)
  qed
  have old: "map (\<lambda>(k, e). (k, e\<lparr>h_attachments := h_attachments e @ attachments_in k rows\<rparr>))
               (map (\<lambda>(k, e). (k, e\<lparr>h_attachments := h_attachments e @ row_attachment k row\<rparr>)) acc)
             = map (\<lambda>(k, e). (k, e\<lparr>h_attachments :=
                                     h_attachments e @ attachments_in k (row # rows)\<rparr>)) acc"
    by (induction acc) (auto simp: attachments_in_Cons)
  have "foldl group_row acc (row # rows) = foldl group_row ?acc' rows"
    by simp
  also have "\<dots> = map (\<lambda>(k, e). (k, e\<lparr>h_attachments := h_attachments e @ attachments_in k rows\<rparr>)) ?acc'
     @ map (\<lambda>m. (message_id m,
                  \<lparr>h_message = m, h_attachments = attachments_in (message_id m) rows\<rparr>))
           (first_messages (insert ?k (fst ` set acc)) rows)"
    unfolding Cons.IH [of ?acc'] keys ..
  also have "\<dots> = map (\<lambda>(k, e). (k, e\<lparr>h_attachments := h_attachments e @ attachments_in k (row # rows)\<rparr>)) acc
     @ map (\<lambda>m. (message_id m,
                  \<lparr>h_message = m, h_attachments = attachments_in (message_id m) (row # rows)\<rparr>))
           (first_messages (fst ` set acc) (row # rows))"
  proof (cases "?k \<in> fst ` set acc")
    case True
    then have ins: "insert ?k (fst ` set acc) = fst ` set acc"
      by auto
    from True show ?thesis
      unfolding later
      by (simp add: group_row_shape old ins del: map_map)
  next
    case False
    then show ?thesis
      unfolding later
      by (simp add: group_row_shape old attachments_in_Cons del: map_map)
  qed
  finally show ?case .
qed

lemma attachments_in_append:
  "attachments_in k (xs @ ys) = attachments_in k xs @ attachments_in k ys"
  by (simp add: attachments_in_def)

lemma mset_attachments_in:
  "mset rows = mset rows' \<Longrightarrow> mset (attachments_in k rows) = mset (attachments_in k rows')"
proof -
  have "mset (attachments_in k xs) = (\<Sum>row \<in># mset xs. mset (row_attachment k row))" for xs
    by (induction xs) (simp_all add: attachments_in_Nil attachments_in_Cons)
  then show "mset rows = mset rows' \<Longrightarrow> mset (attachments_in k rows) = mset (attachments_in k rows')"
    by simp
qed

lemma attachments_in_joined_rows:
  assumes "\<forall>a \<in> set as. attachment_id a \<noteq> ''''"
  shows "attachments_in k (joined_rows as m)
         = (if message_id m = k
            then map attachment_info_of (filter (\<lambda>a. a_message_id a = k) as) else [])"
proof (cases "filter (\<lambda>a. a_message_id a = message_id m) as")
  case Nil
  then show ?thesis
    by (auto simp: joined_rows_def attachments_in_def)
next
  case (Cons a hits)
  have sub: "set (a # hits) \<subseteq> set as"
    unfolding Cons [symmetric] by simp
  have "attachments_in k (map (\<lambda>a. (m, Some a)) xs)
        = (if message_id m = k then map attachment_info_of xs else [])"
    if "set xs \<subseteq> set as" for xs
    using that assms by (induction xs) (auto simp: attachments_in_Nil attachments_in_Cons)
  note all = this [OF sub]
  show ?thesis
  proof (cases "message_id m = k")
    case True
    with all Cons show ?thesis
      by (simp add: joined_rows_def)
  next
    case False
    with all Cons show ?thesis
      by (simp add: joined_rows_def)
  qed
qed

lemma attachments_in_left_join:
  assumes "\<forall>a \<in> set as. attachment_id a \<noteq> ''''"
  shows "distinct (map message_id ms) \<Longrightarrow>
         attachments_in k (left_join ms as)
         = (if k \<in> message_id ` set ms
            then map attachment_info_of (filter (\<lambda>a. a_message_id a = k) as) else [])"
proof (induction ms)
  case Nil
  then show ?case
    by (simp add: left_join_Nil attachments_in_Nil)
next
  case (Cons m ms)
  then show ?case
    by (auto simp: left_join_Cons attachments_in_append attachments_in_joined_rows [OF assms])
qed

lemma joined_rows_not_Nil: "joined_rows as m \<noteq> []"
  by (simp add: joined_rows_def split: list.splits)

lemma fst_set_left_join: "fst ` set (left_join ms as) = set ms"
proof
  show "fst ` set (left_join ms as) \<subseteq> set ms"
    by (auto dest: left_join_fst)
  show "set ms \<subseteq> fst ` set (left_join ms as)"
  proof
    fix m
    assume m: "m \<in> set ms"
    obtain row where row: "row \<in> set (joined_rows as m)"
      using joined_rows_not_Nil [of as m] by (cases "joined_rows as m") auto
    with m have "row \<in> set (left_join ms as)"
      by (auto simp: left_join_def)
    moreover from row have "fst row = m"
      by (rule joined_rows_fst)
    ultimately show "m \<in> fst ` set (left_join ms as)"
      by force
  qed
qed

text \<open>
  What the history promises does not depend on the order in which the engine returns rows with
  equal \<open>created_at\<close>: the grouping of every list that holds the rows of the query and is
  ordered by \<open>created_at\<close> is ordered, has each message of the conversation once, and gives
  each message the attachment rows that name it.
\<close>

lemma grouping_any_row_order:
  assumes rows: "mset rows = mset (filter (\<lambda>row. m_conversation_id (fst row) = cid)
                                     (left_join (messages conn) (attachments conn)))"
    and ordered: "sorted (map (\<lambda>row. m_created_at (fst row)) rows)"
    and pk: "distinct (map message_id (messages conn))"
    and ids: "\<forall>a \<in> set (attachments conn). attachment_id a \<noteq> ''''"
  shows "sorted (map (\<lambda>e. m_created_at (h_message e)) (map snd (foldl group_row [] rows)))"
    and "distinct (map (\<lambda>e. message_id (h_message e)) (map snd (foldl group_row [] rows)))"
    and "mset (map h_message (map snd (foldl group_row [] rows)))
         = mset (filter (\<lambda>m. m_conversation_id m = cid) (messages conn))"
    and "\<forall>e \<in> set (map snd (foldl group_row [] rows)).
           mset (h_attachments e)
           = mset (map attachment_info_of
                    (filter (\<lambda>a. a_message_id a = message_id (h_message e)) (attachments conn)))"
proof -
  let ?ms = "filter (\<lambda>m. m_conversation_id m = cid) (messages conn)"
  let ?J = "left_join ?ms (attachments conn)"
  let ?F = "first_messages {} rows"
  let ?H = "map snd (foldl group_row [] rows)"
  have H: "?H = map (\<lambda>m. \<lparr>h_message = m, h_attachments = attachments_in (message_id m) rows\<rparr>) ?F"
    by (simp add: foldl_group_row_any comp_def)
  have J: "mset rows = mset ?J"
    using rows by (simp only: filter_left_join [where P = "\<lambda>m. m_conversation_id m = cid"])
  then have "set rows = set ?J"
    by (rule mset_eq_setD)
  then have fst_rows: "fst ` set rows = set ?ms"
    by (simp only: fst_set_left_join)
  from pk have pk': "distinct (map message_id ?ms)"
    by (rule distinct_map_filter)
  have dF: "distinct (map message_id ?F)"
    by (rule first_messages_distinct)
  have F_sub: "set ?F \<subseteq> set ?ms"
  proof
    fix m
    assume "m \<in> set ?F"
    then have "m \<in> fst ` set rows"
      by (rule first_messages_unseen [THEN conjunct2])
    then show "m \<in> set ?ms"
      by (simp only: fst_rows)
  qed
  have ms_sub: "set ?ms \<subseteq> set ?F"
  proof
    fix m
    assume m: "m \<in> set ?ms"
    then have "m \<in> fst ` set rows"
      by (simp only: fst_rows)
    then obtain row where row: "row \<in> set rows" "m = fst row"
      by (rule imageE)
    from row(1) have "(message_id \<circ> fst) row \<in> (message_id \<circ> fst) ` set rows"
      by (rule imageI)
    then have "message_id m \<in> (message_id \<circ> fst) ` set rows - {}"
      by (simp add: row(2))
    then have "message_id m \<in> message_id ` set ?F"
      by (simp only: first_messages_keys)
    then obtain m' where m': "message_id m = message_id m'" "m' \<in> set ?F"
      by (rule imageE)
    from m'(2) F_sub have m'_in: "m' \<in> set ?ms"
      by (rule subsetD [rotated])
    from pk' have "inj_on message_id (set ?ms)"
      by (simp add: distinct_map)
    from inj_onD [OF this m'(1) m m'_in] have "m' = m"
      by simp
    with m'(2) show "m \<in> set ?F"
      by simp
  qed
  show "sorted (map (\<lambda>e. m_created_at (h_message e)) ?H)"
    using first_messages_sorted [OF ordered, of "{}"] by (simp add: H comp_def)
  show "distinct (map (\<lambda>e. message_id (h_message e)) ?H)"
    using dF by (simp add: H comp_def)
  from dF have "distinct ?F"
    by (simp add: distinct_map)
  moreover from pk' have "distinct ?ms"
    by (simp add: distinct_map)
  moreover from F_sub ms_sub have "set ?F = set ?ms"
    by (rule subset_antisym)
  ultimately have "mset ?F = mset ?ms"
    by (simp only: set_eq_iff_mset_eq_distinct)
  then show "mset (map h_message ?H) = mset ?ms"
    by (simp add: H comp_def)
  show "\<forall>e \<in> set ?H.
           mset (h_attachments e)
           = mset (map attachment_info_of
                    (filter (\<lambda>a. a_message_id a = message_id (h_message e)) (attachments conn)))"
  proof
    fix e
    assume "e \<in> set ?H"
    then obtain m where m: "m \<in> set ?F"
      and e: "e = \<lparr>h_message = m, h_attachments = attachments_in (message_id m) rows\<rparr>"
      unfolding H by auto
    from m F_sub have "m \<in> set ?ms"
      by (rule subsetD [rotated])
    then have "message_id m \<in> message_id ` set ?ms"
      by (rule imageI)
    then have "attachments_in (message_id m) ?J
               = map attachment_info_of
                   (filter (\<lambda>a. a_message_id a = message_id m) (attachments conn))"
      by (simp add: attachments_in_left_join [OF ids pk'])
    with mset_attachments_in [OF J, of "message_id m"]
    show "mset (h_attachments e)
           = mset (map attachment_info_of
                    (filter (\<lambda>a. a_message_id a = message_id (h_message e)) (attachments conn)))"
      by (simp add: e)
  qed
qed

lemma select_history_rows:
  "mset (select_history conn cid)
   = mset (filter (\<lambda>row. m_conversation_id (fst row) = cid)
             (left_join (messages conn) (attachments conn)))"
  "sorted (map (\<lambda>row. m_created_at (fst row)) (select_history conn cid))"
  by (simp_all add: select_history_def)

subsection \<open>Deleting a conversation\<close>

lemma delete_conversation_result:
  "delete_conversation conn cid =
     (Inr (),
      conn\<lparr>attachments :=
             filter (\<lambda>a. a_message_id a \<notin>
                          set (map message_id
                                 (filter (\<lambda>m. m_conversation_id m = cid) (messages conn))))
                    (attachments conn),
           messages := filter (\<lambda>m. m_conversation_id m \<noteq> cid) (messages conn),
           conversations := filter (\<lambda>c. conversation_id c \<noteq> cid) (conversations conn)\<rparr>)"
  by (simp add: delete_conversation_def with_conn_def delete_attachments_of_def
      delete_messages_of_def delete_conversation_row_def Let_def)

text \<open>
  C2. \<open>delete_conversation\<close> runs the three deletes in the order attachments, messages,
  conversation, and does not raise. Afterwards no conversation row has the id, no message row
  belongs to it, and for every message that belonged to it no attachment row names that message.
\<close>

theorem delete_conversation_cascade:
  assumes "delete_conversation conn cid = (r, conn')"
  shows "r = Inr ()
       \<and> conn' = delete_conversation_row
                   (delete_messages_of (delete_attachments_of conn cid) cid) cid
       \<and> (\<forall>c \<in> set (conversations conn'). conversation_id c \<noteq> cid)
       \<and> (\<forall>m \<in> set (messages conn'). m_conversation_id m \<noteq> cid)
       \<and> (\<forall>m \<in> set (messages conn). m_conversation_id m = cid \<longrightarrow>
             m \<notin> set (messages conn')
             \<and> (\<forall>a \<in> set (attachments conn'). a_message_id a \<noteq> message_id m)
             \<and> (\<forall>a \<in> set (attachments conn). a_message_id a = message_id m \<longrightarrow>
                   a \<notin> set (attachments conn')))"
proof -
  have "delete_conversation conn cid =
          (Inr (), delete_conversation_row
                     (delete_messages_of (delete_attachments_of conn cid) cid) cid)"
    by (simp add: delete_conversation_def with_conn_def Let_def)
  with assms have "r = Inr ()"
    and "conn' = delete_conversation_row
                   (delete_messages_of (delete_attachments_of conn cid) cid) cid"
    by simp_all
  moreover from assms have "conn' = snd (delete_conversation conn cid)"
    by simp
  then have "\<forall>c \<in> set (conversations conn'). conversation_id c \<noteq> cid"
    and "\<forall>m \<in> set (messages conn'). m_conversation_id m \<noteq> cid"
    and "\<forall>m \<in> set (messages conn). m_conversation_id m = cid \<longrightarrow>
             m \<notin> set (messages conn')
             \<and> (\<forall>a \<in> set (attachments conn'). a_message_id a \<noteq> message_id m)
             \<and> (\<forall>a \<in> set (attachments conn). a_message_id a = message_id m \<longrightarrow>
                   a \<notin> set (attachments conn'))"
    by (auto simp: delete_conversation_result)
  ultimately show ?thesis
    by blast
qed

theorem delete_conversation_cascade_witness:
  "map message_id (messages sample_chat) = [''m2'', ''m3'', ''m1'']
   \<and> map a_message_id (attachments sample_chat) = [''m2'', ''m3'', ''m2'']
   \<and> fst (delete_conversation sample_chat ''c1'') = Inr ()
   \<and> map conversation_id (conversations (snd (delete_conversation sample_chat ''c1''))) = [''c2'']
   \<and> map message_id (messages (snd (delete_conversation sample_chat ''c1''))) = [''m3'']
   \<and> map attachment_id (attachments (snd (delete_conversation sample_chat ''c1''))) = [''a2'']"
proof -
  have rows: "map conversation_id (conversations (snd (delete_conversation sample_chat ''c1''))) = [''c2'']"
    "map message_id (messages (snd (delete_conversation sample_chat ''c1''))) = [''m3'']"
    "map attachment_id (attachments (snd (delete_conversation sample_chat ''c1''))) = [''a2'']"
    by (simp_all add: delete_conversation_result sample_chat_def)
  from delete_conversation_cascade [OF surjective_pairing, of sample_chat "''c1''"]
  have "fst (delete_conversation sample_chat ''c1'') = Inr ()"
    by simp
  with rows show ?thesis
    by (simp add: sample_chat_rows)
qed

subsection \<open>Appending a message\<close>

lemma dict_item_Inr: "dict_item k f = Inr v \<longleftrightarrow> f \<noteq> NoKey \<and> v = pyfield_value f"
  by (cases f) auto

lemma dict_item_Inl: "dict_item k f = Inl e \<longleftrightarrow> f = NoKey \<and> e = KeyError k"
  by (cases f) auto

lemma insert_attachments_Inr:
  "insert_attachments conn uuid4 k mid t atts = Inr conn' \<Longrightarrow>
     (\<forall>att \<in> set atts. has_keys att)
     \<and> conn' = conn\<lparr>attachments := attachments conn @
                     map (\<lambda>(j, att). attachment_row mid t (uuid4 j) att)
                         (zip [k ..< k + length atts] atts)\<rparr>"
proof (induction atts arbitrary: conn k)
  case Nil
  then show ?case by simp
next
  case (Cons att rest)
  from Cons.prems obtain conn1 where
    keys: "has_keys att"
    and ins: "insert_attachment conn (attachment_row mid t (uuid4 k) att) = Inr conn1"
    and rest: "insert_attachments conn1 uuid4 (Suc k) mid t rest = Inr conn'"
    by (auto simp: dict_item_Inr has_keys_def attachment_row_def split: sum.splits)
  from ins have conn1: "conn1 = conn\<lparr>attachments := attachments conn @ [attachment_row mid t (uuid4 k) att]\<rparr>"
    by (auto simp: insert_attachment_def split: if_splits)
  have up: "[k ..< k + length (att # rest)] = k # [Suc k ..< Suc k + length rest]"
    by (subst upt_rec) simp
  from Cons.IH [OF rest] keys show ?case
    unfolding up by (simp add: conn1)
qed

lemma insert_attachments_missing_key:
  "\<exists>att \<in> set atts. \<not> has_keys att \<Longrightarrow>
   \<exists>e. insert_attachments conn uuid4 k mid t atts = Inl e"
proof (induction atts arbitrary: conn k)
  case Nil
  then show ?case by simp
next
  case (Cons att rest)
  show ?case
  proof (cases "insert_attachments conn uuid4 k mid t (att # rest)")
    case (Inl e)
    then show ?thesis by blast
  next
    case (Inr conn')
    from insert_attachments_Inr [OF Inr] Cons.prems show ?thesis
      by blast
  qed
qed

lemma add_message_Inl:
  "add_message conn uuid4 t cid rl cont ctype atts = (Inl e, conn') \<Longrightarrow> conn' = conn"
  by (auto simp: add_message_def with_conn_def Let_def split: sum.splits)

lemma add_message_Inr:
  assumes "add_message conn uuid4 t cid rl cont ctype atts = (Inr mid, conn')"
  shows "mid = uuid4 0"
    and "mid \<notin> message_id ` set (messages conn)"
    and "rl \<in> set [''user'', ''assistant'', ''system'']"
    and "ctype \<in> set [''text'', ''image'', ''audio'', ''video'', ''file'']"
    and "\<forall>att \<in> set (supplied atts). has_keys att"
    and "messages conn' = messages conn @
           [\<lparr>message_id = mid, m_conversation_id = cid, role = rl, content_type = ctype,
             content = cont, m_created_at = t\<rparr>]"
    and "conversations conn' =
           map (\<lambda>c. if conversation_id c = cid then c\<lparr>last_updated := SqlReal t\<rparr> else c)
               (conversations conn)"
    and "attachments conn' = attachments conn @
           map (\<lambda>(j, att). attachment_row mid t (uuid4 j) att)
               (zip [1 ..< 1 + length (supplied atts)] (supplied atts))"
    and "settings conn' = settings conn"
proof -
  let ?m = "\<lparr>message_id = uuid4 0, m_conversation_id = cid, role = rl, content_type = ctype,
             content = cont, m_created_at = t\<rparr>"
  from assms obtain conn1 conn3 where
    mid: "mid = uuid4 0"
    and ins: "insert_message conn ?m = Inr conn1"
    and loop: "(case atts of None \<Rightarrow> Inr (touch_conversation conn1 t cid)
                | Some [] \<Rightarrow> Inr (touch_conversation conn1 t cid)
                | Some (att # rest) \<Rightarrow>
                    insert_attachments (touch_conversation conn1 t cid) uuid4 1 (uuid4 0) t (att # rest))
               = Inr conn3"
    and conn': "conn' = conn3"
    by (auto simp: add_message_def with_conn_def Let_def split: sum.splits)
  from ins have ok: "uuid4 0 \<notin> message_id ` set (messages conn)"
      "rl \<in> set [''user'', ''assistant'', ''system'']"
      "ctype \<in> set [''text'', ''image'', ''audio'', ''video'', ''file'']"
    and conn1: "conn1 = conn\<lparr>messages := messages conn @ [?m]\<rparr>"
    by (auto simp: insert_message_def split: if_splits)
  from loop have "insert_attachments (touch_conversation conn1 t cid) uuid4 1 (uuid4 0) t (supplied atts)
                  = Inr conn3"
    by (auto simp: supplied_def split: option.splits list.splits)
  note loop' = insert_attachments_Inr [OF this]
  show "mid = uuid4 0" by (rule mid)
  show "mid \<notin> message_id ` set (messages conn)" using ok(1) mid by simp
  show "rl \<in> set [''user'', ''assistant'', ''system'']" by (rule ok(2))
  show "ctype \<in> set [''text'', ''image'', ''audio'', ''video'', ''file'']" by (rule ok(3))
  show "\<forall>att \<in> set (supplied atts). has_keys att" using loop' by blast
  from loop' have c3: "conn3 = (touch_conversation conn1 t cid)\<lparr>attachments :=
        attachments (touch_conversation conn1 t cid) @
        map (\<lambda>(j, att). attachment_row (uuid4 0) t (uuid4 j) att)
            (zip [1 ..< 1 + length (supplied atts)] (supplied atts))\<rparr>"
    by blast
  show "messages conn' = messages conn @
           [\<lparr>message_id = mid, m_conversation_id = cid, role = rl, content_type = ctype,
             content = cont, m_created_at = t\<rparr>]"
    by (simp add: conn' c3 conn1 touch_conversation_def mid)
  show "conversations conn' =
           map (\<lambda>c. if conversation_id c = cid then c\<lparr>last_updated := SqlReal t\<rparr> else c)
               (conversations conn)"
    by (simp add: conn' c3 conn1 touch_conversation_def)
  show "attachments conn' = attachments conn @
           map (\<lambda>(j, att). attachment_row mid t (uuid4 j) att)
               (zip [1 ..< 1 + length (supplied atts)] (supplied atts))"
    by (simp add: conn' c3 conn1 touch_conversation_def mid)
  show "settings conn' = settings conn"
    by (simp add: conn' c3 conn1 touch_conversation_def)
qed

lemma add_message_rejects:
  assumes "rl \<notin> set [''user'', ''assistant'', ''system'']
           \<or> ctype \<notin> set [''text'', ''image'', ''audio'', ''video'', ''file'']
           \<or> (\<exists>att \<in> set (supplied atts). \<not> has_keys att)"
  shows "\<exists>e. add_message conn uuid4 t cid rl cont ctype atts = (Inl e, conn)"
proof (cases "fst (add_message conn uuid4 t cid rl cont ctype atts)")
  case (Inl e)
  then have "add_message conn uuid4 t cid rl cont ctype atts
             = (Inl e, snd (add_message conn uuid4 t cid rl cont ctype atts))"
    by (simp add: prod_eq_iff)
  with add_message_Inl [OF this] show ?thesis
    by auto
next
  case (Inr mid)
  then have "add_message conn uuid4 t cid rl cont ctype atts
             = (Inr mid, snd (add_message conn uuid4 t cid rl cont ctype atts))"
    by (simp add: prod_eq_iff)
  from add_message_Inr(3-5) [OF this] assms show ?thesis
    by blast
qed

text \<open>
  C3. When \<open>add_message\<close> on an existing conversation returns, the message table has one more
  row, the returned id is that row's id, and the \<open>last_updated\<close> of the conversation is the
  float stored as that row's \<open>created_at\<close>.
\<close>

theorem add_message_last_updated:
  assumes "add_message conn uuid4 t cid rl cont ctype atts = (Inr mid, conn')"
    and "cid \<in> conversation_id ` set (conversations conn)"
  shows "\<exists>m. messages conn' = messages conn @ [m]
            \<and> message_id m = mid \<and> m_conversation_id m = cid
            \<and> (\<exists>c \<in> set (conversations conn'). conversation_id c = cid)
            \<and> (\<forall>c \<in> set (conversations conn').
                  conversation_id c = cid \<longrightarrow> last_updated c = SqlReal (m_created_at m))"
proof -
  note r = add_message_Inr [OF assms(1)]
  let ?m = "\<lparr>message_id = mid, m_conversation_id = cid, role = rl, content_type = ctype,
             content = cont, m_created_at = t\<rparr>"
  let ?touch = "\<lambda>c. if conversation_id c = cid then c\<lparr>last_updated := SqlReal t\<rparr> else c"
  from assms(2) obtain c0 where c0: "c0 \<in> set (conversations conn)" "conversation_id c0 = cid"
    by blast
  from c0(1) have "?touch c0 \<in> set (map ?touch (conversations conn))"
    by (simp only: set_map) (rule imageI)
  then have "?touch c0 \<in> set (conversations conn')"
    by (simp only: r(7))
  moreover have "conversation_id (?touch c0) = cid"
    using c0(2) by simp
  ultimately have ex: "\<exists>c \<in> set (conversations conn'). conversation_id c = cid"
    by (rule bexI [rotated])
  have "last_updated c = SqlReal t"
    if "c \<in> set (map ?touch (conversations conn))" and "conversation_id c = cid" for c
  proof -
    from that(1) obtain c1 where "c = ?touch c1"
      by (auto simp only: set_map)
    with that(2) show ?thesis
      by (cases "conversation_id c1 = cid") simp_all
  qed
  note touched = this
  have all: "\<forall>c \<in> set (conversations conn').
                  conversation_id c = cid \<longrightarrow> last_updated c = SqlReal (m_created_at ?m)"
  proof (intro ballI impI)
    fix c
    assume c: "c \<in> set (conversations conn')" and cid: "conversation_id c = cid"
    from c have "c \<in> set (map ?touch (conversations conn))"
      by (simp only: r(7))
    from touched [OF this cid] show "last_updated c = SqlReal (m_created_at ?m)"
      by simp
  qed
  have m: "messages conn' = messages conn @ [?m]" "message_id ?m = mid" "m_conversation_id ?m = cid"
    by (simp_all only: r(6)) simp_all
  show ?thesis
    by (rule exI [of _ ?m]) (intro conjI m ex all)
qed

lemma sample_add_message:
  "add_message sample_chat (sample_uuid4 ''m4'') 40 ''c1'' ''user'' ''again'' ''text''
     (Some [sample_attachment])
   = (Inr ''m4x'',
      sample_chat\<lparr>
        conversations :=
          [\<lparr>conversation_id = ''c1'', c_created_at = sample_stamp, last_updated = SqlReal 40,
            summary = None\<rparr>,
           \<lparr>conversation_id = ''c2'', c_created_at = sample_stamp, last_updated = SqlReal 30,
            summary = None\<rparr>],
        messages := messages sample_chat @
          [\<lparr>message_id = ''m4x'', m_conversation_id = ''c1'', role = ''user'',
            content_type = ''text'', content = ''again'', m_created_at = 40\<rparr>],
        attachments := attachments sample_chat @
          [\<lparr>attachment_id = ''m4xx'', a_message_id = ''m4x'', file_name = Some ''a.png'',
            file_path = Some ''/tmp/a.png'', file_type = Some ''image/png'',
            file_size = Some 1024, a_created_at = 40\<rparr>]\<rparr>)"
  by (simp add: add_message_def with_conn_def insert_message_def touch_conversation_def
      insert_attachment_def sample_chat_def sample_uuid4_def sample_attachment_def Let_def)

theorem add_message_last_updated_witness:
  "fst (add_message sample_chat (sample_uuid4 ''m4'') 40 ''c1'' ''user'' ''again'' ''text''
          (Some [sample_attachment])) = Inr ''m4x''
   \<and> map message_id (messages (snd (add_message sample_chat (sample_uuid4 ''m4'') 40 ''c1''
          ''user'' ''again'' ''text'' (Some [sample_attachment])))) = [''m2'', ''m3'', ''m1'', ''m4x'']
   \<and> map m_created_at (messages (snd (add_message sample_chat (sample_uuid4 ''m4'') 40 ''c1''
          ''user'' ''again'' ''text'' (Some [sample_attachment])))) = [20, 30, 10, 40]
   \<and> map last_updated (conversations (snd (add_message sample_chat (sample_uuid4 ''m4'') 40 ''c1''
          ''user'' ''again'' ''text'' (Some [sample_attachment])))) = [SqlReal 40, SqlReal 30]"
proof -
  let ?call = "add_message sample_chat (sample_uuid4 ''m4'') 40 ''c1'' ''user'' ''again'' ''text''
                 (Some [sample_attachment])"
  have res: "fst ?call = Inr ''m4x''"
    by (simp add: sample_add_message)
  then have call: "?call = (Inr ''m4x'', snd ?call)"
    by (simp add: prod_eq_iff)
  have "''c1'' \<in> set (map conversation_id (conversations sample_chat))"
    by (simp add: sample_chat_rows)
  then have mem: "''c1'' \<in> conversation_id ` set (conversations sample_chat)"
    by simp
  from add_message_last_updated [OF call mem] obtain m where
    "messages (snd ?call) = messages sample_chat @ [m]" "message_id m = ''m4x''"
    by blast
  then have ids: "map message_id (messages (snd ?call)) = [''m2'', ''m3'', ''m1'', ''m4x'']"
    by (simp add: sample_chat_rows)
  have "map m_created_at (messages (snd ?call)) = [20, 30, 10, 40]"
    and "map last_updated (conversations (snd ?call)) = [SqlReal 40, SqlReal 30]"
    by (simp_all add: sample_add_message) (simp add: sample_chat_def)
  with res ids show ?thesis
    by simp
qed

text \<open>
  C4. Every call of \<open>add_message\<close> either raises and leaves the store as it was, or returns the
  new id and has written the message row, the new \<open>last_updated\<close> of the conversation and one
  attachment row for each descriptor, in order. A role or a content type outside the two
  enumerations, or a descriptor that lacks one of the four keys, makes the call raise.
\<close>

theorem add_message_atomic:
  assumes "add_message conn uuid4 t cid rl cont ctype atts = (r, conn')"
  shows "(case r of
            Inl e \<Rightarrow> conn' = conn
          | Inr mid \<Rightarrow>
              messages conn' = messages conn @
                [\<lparr>message_id = mid, m_conversation_id = cid, role = rl, content_type = ctype,
                  content = cont, m_created_at = t\<rparr>]
              \<and> conversations conn' =
                  map (\<lambda>c. if conversation_id c = cid then c\<lparr>last_updated := SqlReal t\<rparr> else c)
                      (conversations conn)
              \<and> attachments conn' = attachments conn @
                  map (\<lambda>(j, att). attachment_row mid t (uuid4 j) att)
                      (zip [1 ..< 1 + length (supplied atts)] (supplied atts))
              \<and> settings conn' = settings conn)
       \<and> (rl \<notin> set [''user'', ''assistant'', ''system'']
            \<or> ctype \<notin> set [''text'', ''image'', ''audio'', ''video'', ''file'']
            \<or> (\<exists>att \<in> set (supplied atts). \<not> has_keys att)
          \<longrightarrow> (\<exists>e. r = Inl e) \<and> conn' = conn)"
proof -
  have first: "case r of
            Inl e \<Rightarrow> conn' = conn
          | Inr mid \<Rightarrow>
              messages conn' = messages conn @
                [\<lparr>message_id = mid, m_conversation_id = cid, role = rl, content_type = ctype,
                  content = cont, m_created_at = t\<rparr>]
              \<and> conversations conn' =
                  map (\<lambda>c. if conversation_id c = cid then c\<lparr>last_updated := SqlReal t\<rparr> else c)
                      (conversations conn)
              \<and> attachments conn' = attachments conn @
                  map (\<lambda>(j, att). attachment_row mid t (uuid4 j) att)
                      (zip [1 ..< 1 + length (supplied atts)] (supplied atts))
              \<and> settings conn' = settings conn"
  proof (cases r)
    case (Inl e)
    with assms add_message_Inl show ?thesis
      by simp
  next
    case (Inr mid)
    with assms have call: "add_message conn uuid4 t cid rl cont ctype atts = (Inr mid, conn')"
      by simp
    show ?thesis
      unfolding Inr sum.case
      by (intro conjI add_message_Inr(6-9) [OF call])
  qed
  have second: "(\<exists>e. r = Inl e) \<and> conn' = conn"
    if "rl \<notin> set [''user'', ''assistant'', ''system'']
            \<or> ctype \<notin> set [''text'', ''image'', ''audio'', ''video'', ''file'']
            \<or> (\<exists>att \<in> set (supplied atts). \<not> has_keys att)"
    using add_message_rejects [OF that, of conn uuid4 t cid cont] assms by auto
  from first second show ?thesis
    by blast
qed

theorem add_message_atomic_witness:
  "add_message sample_chat (sample_uuid4 ''m4'') 40 ''c1'' ''robot'' ''again'' ''text''
     (Some [sample_attachment]) = (Inl IntegrityError, sample_chat)
   \<and> add_message sample_chat (sample_uuid4 ''m4'') 40 ''c1'' ''user'' ''again'' ''text''
       (Some [sample_attachment, sample_attachment\<lparr>att_size := NoKey\<rparr>])
     = (Inl (KeyError ''size''), sample_chat)
   \<and> fst (add_message sample_chat (sample_uuid4 ''m4'') 40 ''c1'' ''user'' ''again'' ''text''
         (Some [sample_attachment])) = Inr ''m4x''
   \<and> map attachment_id (attachments (snd (add_message sample_chat (sample_uuid4 ''m4'') 40 ''c1''
         ''user'' ''again'' ''text'' (Some [sample_attachment])))) = [''a1'', ''a2'', ''a3'', ''m4xx'']"
proof -
  let ?bad_role = "add_message sample_chat (sample_uuid4 ''m4'') 40 ''c1'' ''robot'' ''again''
                     ''text'' (Some [sample_attachment])"
  let ?bad_att = "add_message sample_chat (sample_uuid4 ''m4'') 40 ''c1'' ''user'' ''again''
                    ''text'' (Some [sample_attachment, sample_attachment\<lparr>att_size := NoKey\<rparr>])"
  let ?good = "add_message sample_chat (sample_uuid4 ''m4'') 40 ''c1'' ''user'' ''again'' ''text''
                 (Some [sample_attachment])"
  have e1: "fst ?bad_role = Inl IntegrityError"
    by (simp add: add_message_def with_conn_def insert_message_def Let_def)
  have e2: "fst ?bad_att = Inl (KeyError ''size'')"
    by (simp add: add_message_def with_conn_def insert_message_def touch_conversation_def
        insert_attachment_def sample_chat_def sample_uuid4_def sample_attachment_def Let_def)
  have g: "fst ?good = Inr ''m4x''"
    by (simp add: sample_add_message)
  from add_message_atomic [OF surjective_pairing, of sample_chat "sample_uuid4 ''m4''" 40 "''c1''"
      "''robot''" "''again''" "''text''" "Some [sample_attachment]"] e1
  have r1: "snd ?bad_role = sample_chat"
    by simp
  from add_message_atomic [OF surjective_pairing, of sample_chat "sample_uuid4 ''m4''" 40 "''c1''"
      "''user''" "''again''" "''text''"
      "Some [sample_attachment, sample_attachment\<lparr>att_size := NoKey\<rparr>]"] e2
  have r2: "snd ?bad_att = sample_chat"
    by simp
  from add_message_atomic [OF surjective_pairing, of sample_chat "sample_uuid4 ''m4''" 40 "''c1''"
      "''user''" "''again''" "''text''" "Some [sample_attachment]"] g
  have "attachments (snd ?good) = attachments sample_chat @
          map (\<lambda>(j, att). attachment_row ''m4x'' 40 (sample_uuid4 ''m4'' j) att)
              (zip [1 ..< 1 + length (supplied (Some [sample_attachment]))]
                   (supplied (Some [sample_attachment])))"
    by simp
  then have r3: "map attachment_id (attachments (snd ?good)) = [''a1'', ''a2'', ''a3'', ''m4xx'']"
    by (simp add: supplied_def attachment_row_def sample_uuid4_def sample_chat_rows)
  from e1 r1 e2 r2 g r3 show ?thesis
    by (simp add: prod_eq_iff)
qed

subsection \<open>The keys that reading a conversation relies on\<close>

text \<open>
  Unique message ids and non-empty attachment ids hold in a new store and are kept by every
  method that writes messages or attachments, as long as \<open>uuid4\<close> never renders the empty string.
\<close>

lemma init_db_no_rows:
  "messages (snd (init_db None dflt)) = []" "attachments (snd (init_db None dflt)) = []"
  by (simp_all add: init_db_def DB_script_def empty_db_def create_table_def insert_setting_def
      Let_def)

lemma add_message_keeps_keys:
  assumes "add_message conn uuid4 t cid rl cont ctype atts = (r, conn')"
    and "distinct (map message_id (messages conn))"
    and "\<forall>a \<in> set (attachments conn). attachment_id a \<noteq> ''''"
    and "\<forall>j. uuid4 j \<noteq> ''''"
  shows "distinct (map message_id (messages conn'))"
    and "\<forall>a \<in> set (attachments conn'). attachment_id a \<noteq> ''''"
proof -
  have "distinct (map message_id (messages conn'))
        \<and> (\<forall>a \<in> set (attachments conn'). attachment_id a \<noteq> '''')"
  proof (cases r)
    case (Inl e)
    with assms(1) add_message_Inl have "conn' = conn"
      by simp
    with assms(2,3) show ?thesis
      by simp
  next
    case (Inr mid)
    with assms(1) have call: "add_message conn uuid4 t cid rl cont ctype atts = (Inr mid, conn')"
      by simp
    note r = add_message_Inr [OF call]
    have "attachment_id a \<noteq> ''''"
      if "a \<in> set (map (\<lambda>(j, att). attachment_row mid t (uuid4 j) att) xs)" for a xs
      using that assms(4) by (auto simp: attachment_row_def)
    with assms(3) have "\<forall>a \<in> set (attachments conn'). attachment_id a \<noteq> ''''"
      unfolding r(8) by (metis Un_iff set_append)
    moreover from assms(2) r(2) have "distinct (map message_id (messages conn'))"
      by (simp add: r(6))
    ultimately show ?thesis
      by simp
  qed
  then show "distinct (map message_id (messages conn'))"
    and "\<forall>a \<in> set (attachments conn'). attachment_id a \<noteq> ''''"
    by simp_all
qed

lemma delete_conversation_keeps_keys:
  assumes "distinct (map message_id (messages conn))"
    and "\<forall>a \<in> set (attachments conn). attachment_id a \<noteq> ''''"
  shows "distinct (map message_id (messages (snd (delete_conversation conn cid))))"
    and "\<forall>a \<in> set (attachments (snd (delete_conversation conn cid))). attachment_id a \<noteq> ''''"
  using assms by (simp_all add: delete_conversation_result distinct_map_filter)

lemma create_conversation_keeps_rows:
  "messages (snd (create_conversation conn uuid4 dflt)) = messages conn"
  "attachments (snd (create_conversation conn uuid4 dflt)) = attachments conn"
  by (simp_all add: create_conversation_def with_conn_def Let_def)

subsection \<open>Initialising an existing file\<close>

lemma executescript_existing_table:
  assumes "''conversations'' \<in> set (tables conn) \<or> ''messages'' \<in> set (tables conn)
           \<or> ''attachments'' \<in> set (tables conn) \<or> ''settings'' \<in> set (tables conn)"
  shows "fst (executescript dflt conn DB_script) = Some OperationalError"
  using assms
  by (auto simp: DB_script_def create_table_def Let_def)

lemma init_db_partial_raises:
  assumes "length (filter (\<lambda>name. name \<in> set [''conversations'', ''messages'', ''attachments'',
                                                 ''settings'']) (tables conn)) < 4"
    and "''conversations'' \<in> set (tables conn) \<or> ''messages'' \<in> set (tables conn)
           \<or> ''attachments'' \<in> set (tables conn) \<or> ''settings'' \<in> set (tables conn)"
  shows "fst (init_db (Some conn) dflt) = Some OperationalError"
  using assms(1) executescript_existing_table [OF assms(2), of dflt]
  by (simp add: init_db_def Let_def)

lemma init_db_no_table:
  assumes "''conversations'' \<notin> set (tables conn)" "''messages'' \<notin> set (tables conn)"
    "''attachments'' \<notin> set (tables conn)" "''settings'' \<notin> set (tables conn)"
  shows "fst (init_db (Some conn) dflt) = None"
    and "map s_name (settings (snd (init_db (Some conn) dflt))) = [''default'']"
proof -
  from assms have "filter (\<lambda>name. name \<in> set [''conversations'', ''messages'', ''attachments'',
                                                 ''settings'']) (tables conn) = []"
    by (auto simp: filter_empty_conv)
  then have run: "init_db (Some conn) dflt = executescript dflt conn DB_script"
    by (simp add: init_db_def)
  from assms show "fst (init_db (Some conn) dflt) = None"
    and "map s_name (settings (snd (init_db (Some conn) dflt))) = [''default'']"
    unfolding run
    by (simp_all add: DB_script_def create_table_def insert_setting_def Let_def)
qed

lemma init_db_adds_summary:
  assumes "\<not> length (filter (\<lambda>name. name \<in> set [''conversations'', ''messages'', ''attachments'',
                                                 ''settings'']) (tables conn)) < 4"
  shows "init_db (Some conn) dflt =
           (None,
            if ''summary'' \<in> set (conversations_columns conn) then conn
            else conn\<lparr>conversations_columns := conversations_columns conn @ [''summary'']\<rparr>)"
  using assms by (simp add: init_db_def Let_def)

lemma init_db_old_db:
  "init_db (Some old_db) dflt =
     (None, old_db\<lparr>conversations_columns :=
                     [''conversation_id'', ''created_at'', ''last_updated'', ''summary'']\<rparr>)"
  "conversations (snd (init_db (Some old_db) dflt)) = conversations old_db"
  by (simp_all add: init_db_def old_db_def sample_chat_def sample_db_tables Let_def)

text \<open>
  C6. On the file that holds only the \<open>conversations\<close> table the count is 1, the script is run
  again, and its first statement raises: the constructor fails and the file is left as it was,
  without the other three tables and without the default profile. The same happens on every file
  that holds some but not all of the four tables (\<open>init_db_partial_raises\<close>); the script only
  succeeds on a file that holds none of them (\<open>init_db_no_table\<close>). The other half of the claim
  holds (\<open>init_db_adds_summary\<close>).
\<close>

theorem init_db_partial_store:
  "init_db (Some partial_db) dflt = (Some OperationalError, partial_db)"
  by (simp add: init_db_def partial_db_def empty_db_def DB_script_def create_table_def Let_def)

subsection \<open>The scenario of the specification\<close>

lemma scenario_history:
  "map (\<lambda>e. content (h_message e)) (get_conversation_history scenario_db ''cx'') = [''hello'', ''hi'']"
  "map (\<lambda>e. map i_file_size (h_attachments e)) (get_conversation_history scenario_db ''cx'')
   = [[], [Some 1024]]"
  "map last_updated (conversations scenario_db) = [SqlReal 20]"
  "map s_name (settings scenario_db) = [''default'']"
  by (simp_all add: scenario_db_def create_conversation_def add_message_def with_conn_def
      insert_message_def touch_conversation_def insert_attachment_def sample_uuid4_def
      sample_attachment_def sample_db_def init_db_def DB_script_def empty_db_def create_table_def
      insert_setting_def next_rowid_def get_conversation_history_def select_history_def
      left_join_def joined_rows_def group_row_def attachment_info_of_def Let_def)

end
